theory Spec2Isabelle
  imports Complex_Main "HOL-Library.Word"
begin

section \<open>Numbers and vectors\<close>

text \<open>
  The C++ type \<^verbatim>\<open>double\<close> is modelled by the real numbers: arithmetic is exact, and
  there is no rounding, infinity or NaN. Every statement below about a \<open>double\<close> is a
  statement about this idealised arithmetic.
\<close>

type_synonym double = real

datatype ThreeVector = ThreeVector (x1: double) (x2: double) (x3: double)

datatype FourVector = FourVector (x0: double) (threevec: ThreeVector)

text \<open>
  Modelled from the spec: the classes \<^verbatim>\<open>ThreeVector\<close> and \<^verbatim>\<open>FourVector\<close> (threevector.h
  and fourvector.h are not among the sources) are vectors of three doubles and of a time
  component with a three-vector. Their operators that the sources use, \<^verbatim>\<open>v * a\<close>, \<^verbatim>\<open>-v\<close>,
  \<^verbatim>\<open>+=\<close> and \<^verbatim>\<open>/=\<close>, act on each component.
\<close>

definition scale3 :: "ThreeVector \<Rightarrow> double \<Rightarrow> ThreeVector" where
  "scale3 v a = ThreeVector (x1 v * a) (x2 v * a) (x3 v * a)"

definition neg3 :: "ThreeVector \<Rightarrow> ThreeVector" where
  "neg3 v = ThreeVector (- x1 v) (- x2 v) (- x3 v)"

definition add3 :: "ThreeVector \<Rightarrow> ThreeVector \<Rightarrow> ThreeVector" where
  "add3 v w = ThreeVector (x1 v + x1 w) (x2 v + x2 w) (x3 v + x3 w)"

definition sqr3 :: "ThreeVector \<Rightarrow> double" where
  "sqr3 v = x1 v * x1 v + x2 v * x2 v + x3 v * x3 v"

definition zero3 :: ThreeVector where
  "zero3 = ThreeVector 0 0 0"

definition add4 :: "FourVector \<Rightarrow> FourVector \<Rightarrow> FourVector" where
  "add4 p q = FourVector (x0 p + x0 q) (add3 (threevec p) (threevec q))"

definition div4 :: "FourVector \<Rightarrow> double \<Rightarrow> FourVector" where
  "div4 p a = FourVector (x0 p / a)
     (ThreeVector (x1 (threevec p) / a) (x2 (threevec p) / a) (x3 (threevec p) / a))"

definition zero4 :: FourVector where
  "zero4 = FourVector 0 zero3"

section \<open>Random numbers\<close>

text \<open>
  The process-wide random source (\<^verbatim>\<open>drand48\<close>, \<^verbatim>\<open>Random::uniform\<close>) is an infinite
  sequence of draws together with the number of draws consumed so far. A function that
  draws takes the sequence and the counter and returns the new counter.
\<close>

type_synonym draws = "nat \<Rightarrow> double"

definition unit_draws :: "draws \<Rightarrow> bool" where
  "unit_draws u \<longleftrightarrow> (\<forall>i. 0 \<le> u i \<and> u i < 1)"

section \<open>Process types and failures\<close>

text \<open>
  Modelled from the spec: the enumeration \<^verbatim>\<open>ProcessType\<close> (processbranch.h is not among
  the sources). The constructors are the tags the sources name; every other tag of the
  enumeration is \<open>Other_process n\<close>. \<open>NoProcess\<close> is the initial, unset tag.
\<close>

datatype ProcessType =
    NoProcess
  | Elastic
  | Wall
  | StringSoft
  | StringHard
  | MultiParticleThreePionsToOmega
  | Other_process nat

text \<open>
  How a call ends when it does not return: with an exception of the named C++ type
  (carrying the values its message is built from), with a failed \<^verbatim>\<open>assert\<close>, or in
  undefined behaviour by indexing a vector beyond its end.
\<close>

datatype failure =
    Threw_InvalidResonanceFormation string double double double
  | Threw_InvalidScatterActionMulti_count nat
  | Threw_InvalidScatterActionMulti_type ProcessType
  | Threw_runtime_error string
  | Threw_errormsg double
  | Assertion_failure
  | Undefined_out_of_bounds

section \<open>Angles (include/Angles.h)\<close>

record Angles =
  phi_m :: double
  costheta_m :: double

text \<open>\<^verbatim>\<open>Angles::Angles() : phi_(0), costheta_(0)\<close>\<close>

definition Angles_init :: Angles where
  "Angles_init = \<lparr>phi_m = 0, costheta_m = 0\<rparr>"

text \<open>Two draws: the first gives \<open>phi_m\<close>, the second \<open>costheta_m\<close>.\<close>

definition distribute_isotropically :: "draws \<Rightarrow> nat \<Rightarrow> Angles \<Rightarrow> Angles \<times> nat" where
  "distribute_isotropically u k a =
     (a\<lparr>phi_m := 2 * pi * u k, costheta_m := - 1 + 2 * u (Suc k)\<rparr>, k + 2)"

definition set_phi :: "Angles \<Rightarrow> double \<Rightarrow> Angles" where
  "set_phi a newphi =
     (let a1 = a\<lparr>phi_m := newphi\<rparr> in
      if phi_m a1 < 0 \<or> phi_m a1 \<ge> 2 * pi
      then a1\<lparr>phi_m := phi_m a1 - 2 * pi * of_int \<lfloor>phi_m a1 / (2 * pi)\<rfloor>\<rparr>
      else a1)"

text \<open>
  \<open>set_costheta\<close> stores the new value first and checks it afterwards, so the object
  holds the rejected value when the exception leaves the function. The result is the
  object after the call and the exception thrown, if any.
\<close>

definition set_costheta :: "Angles \<Rightarrow> double \<Rightarrow> Angles \<times> failure option" where
  "set_costheta a newcos =
     (let a1 = a\<lparr>costheta_m := newcos\<rparr> in
      if costheta_m a1 < - 1 \<or> costheta_m a1 > 1 then (a1, Some (Threw_errormsg (costheta_m a1)))
      else (a1, None))"

definition set_theta :: "Angles \<Rightarrow> double \<Rightarrow> Angles \<times> failure option" where
  "set_theta a newtheta = set_costheta a (cos newtheta)"

definition costheta :: "Angles \<Rightarrow> double" where
  "costheta a = costheta_m a"

definition phi :: "Angles \<Rightarrow> double" where
  "phi a = phi_m a"

definition sintheta :: "Angles \<Rightarrow> double" where
  "sintheta a = sqrt (1 - costheta_m a * costheta_m a)"

definition Angles_x :: "Angles \<Rightarrow> double" where
  "Angles_x a = sintheta a * cos (phi_m a)"

definition Angles_y :: "Angles \<Rightarrow> double" where
  "Angles_y a = sintheta a * sin (phi_m a)"

definition Angles_z :: "Angles \<Rightarrow> double" where
  "Angles_z a = costheta_m a"

definition theta :: "Angles \<Rightarrow> double" where
  "theta a = arccos (costheta_m a)"

text \<open>The invariant of the class: the stored cosine is a cosine.\<close>

definition costheta_in_range :: "Angles \<Rightarrow> bool" where
  "costheta_in_range a \<longleftrightarrow> - 1 \<le> costheta_m a \<and> costheta_m a \<le> 1"

section \<open>Particles, species and the shared collection\<close>

text \<open>
  Modelled from the spec: a species of the type registry (particletype.h is not among
  the sources), with the attributes the sources read:
  \<^verbatim>\<open>name()\<close>, \<^verbatim>\<open>mass()\<close> (the pole mass), \<^verbatim>\<open>min_mass_kinematic()\<close>, \<^verbatim>\<open>is_stable()\<close>,
  \<^verbatim>\<open>isospin3_rel()\<close>, \<^verbatim>\<open>pdgcode()\<close> and \<^verbatim>\<open>is_baryon()\<close>.
\<close>

record ParticleType =
  name :: string
  mass :: double
  min_mass_kinematic :: double
  is_stable :: bool
  isospin3_rel :: double
  pdgcode :: int
  is_baryon :: bool

text \<open>
  Modelled from the spec: the interaction history of a particle (particledata.h is not
  among the sources): "collision count, last-process id/type/time, references to the
  particles that produced it". The references are the identities of the parents.
\<close>

record HistoryData =
  collisions_per_particle :: int
  id_process :: "32 word"
  history_process_type :: ProcessType
  time_last_collision :: double
  parents :: "int list"

text \<open>
  A particle record. \<open>particle_id\<close> is \<^verbatim>\<open>id()\<close> and \<open>ptype\<close> is \<^verbatim>\<open>type()\<close>; the methods
  \<^verbatim>\<open>pdgcode()\<close> and \<^verbatim>\<open>is_baryon()\<close> of a particle are those of its species.
\<close>

record ParticleData =
  particle_id :: int
  ptype :: ParticleType
  momentum :: FourVector
  position :: FourVector
  get_history :: HistoryData

text \<open>
  Modelled from the spec: \<^verbatim>\<open>ParticleData::set_history\<close> (absent): the particle gets the
  collision count, process id, process type and time it is given, and back-references
  to the incoming particles.
\<close>

definition set_history ::
  "ParticleData \<Rightarrow> int \<Rightarrow> 32 word \<Rightarrow> ProcessType \<Rightarrow> double \<Rightarrow> ParticleData list \<Rightarrow> ParticleData"
where
  "set_history p ncoll pid pt t plist =
     p\<lparr>get_history :=
         \<lparr>collisions_per_particle = ncoll, id_process = pid, history_process_type = pt,
          time_last_collision = t, parents = map particle_id plist\<rparr>\<rparr>"

text \<open>
  Modelled from the spec: \<^verbatim>\<open>ParticleData::set_4momentum(mass, three-momentum)\<close>
  (absent): "a four-momentum with that mass and the sampled momentum vector", that is,
  the on-shell energy \<open>sqrt (m\<^sup>2 + p\<^sup>2)\<close> and the given three-momentum; and
  \<^verbatim>\<open>set_4position\<close>, which stores the position.
\<close>

definition set_4momentum :: "ParticleData \<Rightarrow> double \<Rightarrow> ThreeVector \<Rightarrow> ParticleData" where
  "set_4momentum p m mom = p\<lparr>momentum := FourVector (sqrt (m * m + sqr3 mom)) mom\<rparr>"

definition set_4position :: "ParticleData \<Rightarrow> FourVector \<Rightarrow> ParticleData" where
  "set_4position p pos = p\<lparr>position := pos\<rparr>"

text \<open>
  Modelled from the spec: the shared particle collection (particles.h is absent), with
  the interface of section 6 of the specification: \<open>is_valid\<close>, \<open>update\<close>, \<open>size\<close>.
  The collection holds the canonical particle records and the largest identity it has
  handed out. \<open>update old new True\<close> removes the records with the identities of \<open>old\<close>
  and inserts the records of \<open>new\<close> under fresh identities; \<open>update old new False\<close>
  keeps every identity and overwrites the record of each \<open>old\<close> particle with the
  properties of the \<open>new\<close> particle at the same place in the list. The model does not
  write the identities of the collection back into the list \<open>new\<close>.
\<close>

record Particles =
  data :: "ParticleData list"
  id_max :: int

definition ids :: "Particles \<Rightarrow> int list" where
  "ids ps = map particle_id (data ps)"

definition Particles_size :: "Particles \<Rightarrow> nat" where
  "Particles_size ps = length (data ps)"

definition Particles_is_valid :: "Particles \<Rightarrow> ParticleData \<Rightarrow> bool" where
  "Particles_is_valid ps p \<longleftrightarrow> p \<in> set (data ps)"

fun insert_fresh :: "ParticleData list \<Rightarrow> Particles \<Rightarrow> Particles" where
  "insert_fresh [] ps = ps"
| "insert_fresh (n # ns) ps =
     insert_fresh ns
       \<lparr>data = data ps @ [n\<lparr>particle_id := id_max ps + 1\<rparr>], id_max = id_max ps + 1\<rparr>"

definition remove_identities :: "ParticleData list \<Rightarrow> Particles \<Rightarrow> Particles" where
  "remove_identities old ps =
     ps\<lparr>data := filter (\<lambda>q. particle_id q \<notin> set (map particle_id old)) (data ps)\<rparr>"

definition update_particle :: "ParticleData \<Rightarrow> ParticleData \<Rightarrow> Particles \<Rightarrow> Particles" where
  "update_particle old new ps =
     ps\<lparr>data := map (\<lambda>q. if particle_id q = particle_id old
                           then new\<lparr>particle_id := particle_id q\<rparr> else q) (data ps)\<rparr>"

fun update_in_place :: "(ParticleData \<times> ParticleData) list \<Rightarrow> Particles \<Rightarrow> Particles" where
  "update_in_place [] ps = ps"
| "update_in_place ((old, new) # rest) ps = update_in_place rest (update_particle old new ps)"

definition Particles_update ::
  "Particles \<Rightarrow> ParticleData list \<Rightarrow> ParticleData list \<Rightarrow> bool \<Rightarrow> Particles"
where
  "Particles_update ps old_state new_state do_replace =
     (if do_replace then insert_fresh new_state (remove_identities old_state ps)
      else update_in_place (zip old_state new_state) ps)"

text \<open>
  A collection is well formed when its identities are pairwise distinct and none
  exceeds the largest identity handed out.
\<close>

definition wf_Particles :: "Particles \<Rightarrow> bool" where
  "wf_Particles ps \<longleftrightarrow> distinct (ids ps) \<and> list_all (\<lambda>i. i \<le> id_max ps) (ids ps)"

section \<open>Action (action.cc)\<close>

text \<open>
  The members of \<^verbatim>\<open>Action\<close> the sources use. A lattice of potential values is a partial
  function of the position (\<^verbatim>\<open>value_at\<close> reports whether the point is inside and, if
  so, the value); a null pointer is \<open>None\<close>. \<open>pot\<close> is the pointer to the potentials,
  whose \<^verbatim>\<open>force_scale\<close> gives a pair of a \<open>double\<close> and an \<open>int\<close> for a species.
\<close>

type_synonym lattice = "ThreeVector \<Rightarrow> double option"

record Action =
  incoming_particles :: "ParticleData list"
  outgoing_particles :: "ParticleData list"
  time_of_execution :: double
  process_type :: ProcessType
  UB_lat :: "lattice option"
  UI3_lat :: "lattice option"
  pot :: "(ParticleType \<Rightarrow> double \<times> int) option"

text \<open>
  Warnings and errors written to the log, with the values logged. Debug lines are not
  modelled.
\<close>

datatype log_entry =
    Log_error string
  | Log_warn_radial_momentum int double
  | Log_warn_Ektot double double double

text \<open>
  \<open>is_pauli_blocked\<close> (action.cc, lines 38 to 59): the loop over the outgoing particles. Each baryon costs one call
  of the phase-space density of the blocker and one uniform draw; the loop stops at the
  first baryon whose density exceeds its draw. The result is the answer and the number
  of draws consumed.
\<close>

type_synonym PauliBlocker =
  "ThreeVector \<Rightarrow> ThreeVector \<Rightarrow> Particles \<Rightarrow> int \<Rightarrow> ParticleData list \<Rightarrow> double"

definition phasespace_dens ::
  "PauliBlocker \<Rightarrow> Particles \<Rightarrow> ParticleData list \<Rightarrow> ParticleData \<Rightarrow> double"
where
  "phasespace_dens p_bl particles inc p =
     p_bl (threevec (position p)) (threevec (momentum p)) particles (pdgcode (ptype p)) inc"

fun pauli_loop ::
  "PauliBlocker \<Rightarrow> Particles \<Rightarrow> ParticleData list \<Rightarrow> draws \<Rightarrow> ParticleData list \<Rightarrow> nat
     \<Rightarrow> bool \<times> nat"
where
  "pauli_loop p_bl particles inc u [] k = (False, k)"
| "pauli_loop p_bl particles inc u (p # ps) k =
     (if is_baryon (ptype p) then
        (let f = phasespace_dens p_bl particles inc p
         in if f > u k then (True, Suc k)
            else pauli_loop p_bl particles inc u ps (Suc k))
      else pauli_loop p_bl particles inc u ps k)"

definition is_pauli_blocked ::
  "Action \<Rightarrow> Particles \<Rightarrow> PauliBlocker \<Rightarrow> draws \<Rightarrow> nat \<Rightarrow> bool \<times> nat"
where
  "is_pauli_blocked a particles p_bl u k =
     (if process_type a = Wall then (False, k)
      else pauli_loop p_bl particles (incoming_particles a) u (outgoing_particles a) k)"

text \<open>
  \<open>get_interaction_point\<close> and \<open>get_potential_at_interaction_point\<close> (lines 71 to 95): the
  sum of the incoming positions over their number, and the values of the two lattices
  there, 0 for a missing lattice or a point outside.
\<close>

definition get_interaction_point :: "Action \<Rightarrow> FourVector" where
  "get_interaction_point a =
     div4 (foldl add4 zero4 (map position (incoming_particles a)))
          (real (length (incoming_particles a)))"

definition get_potential_at_interaction_point :: "Action \<Rightarrow> double \<times> double" where
  "get_potential_at_interaction_point a =
     (let r = threevec (get_interaction_point a);
          UB = (case UB_lat a of None \<Rightarrow> None | Some lat \<Rightarrow> lat r);
          UI3 = (case UI3_lat a of None \<Rightarrow> None | Some lat \<Rightarrow> lat r);
          B_pot = (case UB of Some v \<Rightarrow> v | None \<Rightarrow> 0);
          I3_pot = (case UI3 of Some v \<Rightarrow> v | None \<Rightarrow> 0)
      in (B_pot, I3_pot))"

text \<open>
  \<open>kinetic_energy_cms\<close> (lines 126 to 177, the overload without arguments). Its two
  loops add the force scales of the incoming species and subtract those of the outgoing
  ones. \<^verbatim>\<open>sqrt_s()\<close> is declared in action.h, which is not among the sources; it is a
  parameter here.
\<close>

definition force_scale_of :: "Action \<Rightarrow> ParticleType \<Rightarrow> double \<times> int" where
  "force_scale_of a t = (case pot a of Some force_scale \<Rightarrow> force_scale t | None \<Rightarrow> (0, 0))"

definition scale_step ::
  "Action \<Rightarrow> double \<Rightarrow> double \<times> double \<Rightarrow> ParticleType \<Rightarrow> double \<times> double"
where
  "scale_step a sign acc t =
     (let scale = force_scale_of a t
      in (fst acc + sign * fst scale,
          snd acc + sign * (real_of_int (snd scale) * isospin3_rel t)))"

definition kinetic_energy_cms :: "(Action \<Rightarrow> double) \<Rightarrow> Action \<Rightarrow> double" where
  "kinetic_energy_cms sqrt_s a =
     (let s_in = foldl (scale_step a 1) (0, 0) (map ptype (incoming_particles a));
          s_out = foldl (scale_step a (- 1)) s_in (map ptype (outgoing_particles a));
          scale_B = fst s_out;
          scale_I3 = snd s_out;
          potentials = get_potential_at_interaction_point a;
          B_pot_diff = fst potentials * scale_B;
          I3_pot_diff = snd potentials * scale_I3
      in sqrt_s a + B_pot_diff + I3_pot_diff)"

text \<open>
  Modelled from the spec: \<^verbatim>\<open>pCM\<close> (kinematics.h is absent), "the two-body CM momentum
  magnitude from the relativistic two-body kinematics formula given the CM energy and
  the two sampled masses".
\<close>

definition pCM_sqr :: "double \<Rightarrow> double \<Rightarrow> double \<Rightarrow> double" where
  "pCM_sqr sqrts mass_a mass_b =
     (sqrts * sqrts - (mass_a + mass_b) * (mass_a + mass_b)) *
     (sqrts * sqrts - (mass_a - mass_b) * (mass_a - mass_b)) / (4 * (sqrts * sqrts))"

definition pCM :: "double \<Rightarrow> double \<Rightarrow> double \<Rightarrow> double" where
  "pCM sqrts mass_a mass_b = sqrt (pCM_sqr sqrts mass_a mass_b)"

text \<open>
  Modelled from the spec: \<^verbatim>\<open>Angles::threevec()\<close> (the Angles.h among the sources has
  only the three components): the direction with the components \<open>x()\<close>, \<open>y()\<close>, \<open>z()\<close>.
\<close>

definition Angles_threevec :: "Angles \<Rightarrow> ThreeVector" where
  "Angles_threevec a = ThreeVector (Angles_x a) (Angles_y a) (Angles_z a)"

text \<open>
  \<open>sample_masses\<close> (lines 227 to 255). Reading \<^verbatim>\<open>outgoing_particles_[i]\<close> or \<^verbatim>\<open>incoming_particles_[i]\<close>
  beyond the end of the vector is undefined behaviour in C++; the model ends with
  \<open>Out_of_bounds\<close> there. The exception for missing energy carries the reaction name and
  the three numbers of its message. The samplers of resonance masses belong to the type
  registry and are parameters; they may draw random numbers.
\<close>

type_synonym mass_sampler = "ParticleType \<Rightarrow> double \<Rightarrow> double \<Rightarrow> draws \<Rightarrow> nat \<Rightarrow> double \<times> nat"

type_synonym masses_sampler =
  "ParticleType \<Rightarrow> ParticleType \<Rightarrow> double \<Rightarrow> draws \<Rightarrow> nat \<Rightarrow> (double \<times> double) \<times> nat"

definition arrow :: string where
  "arrow = [CHR 0xE2, CHR 0x86, CHR 0x92]"

definition sample_masses ::
  "(Action \<Rightarrow> double) \<Rightarrow> mass_sampler \<Rightarrow> masses_sampler \<Rightarrow> draws \<Rightarrow> nat \<Rightarrow> Action
     \<Rightarrow> failure + (double \<times> double) \<times> nat"
where
  "sample_masses sqrt_s sample_resonance_mass sample_resonance_masses u k a =
     (if length (outgoing_particles a) < 2 then Inl Undefined_out_of_bounds
      else
        let t_a = ptype (outgoing_particles a ! 0);
            t_b = ptype (outgoing_particles a ! 1);
            masses = (mass t_a, mass t_b);
            cms_kin_energy = kinetic_energy_cms sqrt_s a
        in
          if cms_kin_energy < min_mass_kinematic t_a + min_mass_kinematic t_b then
            (if length (incoming_particles a) < 2 then Inl Undefined_out_of_bounds
             else
               let reaction = name (ptype (incoming_particles a ! 0)) @
                              name (ptype (incoming_particles a ! 1)) @ arrow @
                              name t_a @ name t_b
               in Inl (Threw_InvalidResonanceFormation reaction cms_kin_energy
                         (min_mass_kinematic t_a) (min_mass_kinematic t_b)))
          else if \<not> is_stable t_a \<and> is_stable t_b then
            (let (m, k') = sample_resonance_mass t_a (mass t_b) cms_kin_energy u k
             in Inr ((m, snd masses), k'))
          else if \<not> is_stable t_b \<and> is_stable t_a then
            (let (m, k') = sample_resonance_mass t_b (mass t_a) cms_kin_energy u k
             in Inr ((fst masses, m), k'))
          else if \<not> is_stable t_a \<and> \<not> is_stable t_b then
            Inr (sample_resonance_masses t_a t_b cms_kin_energy u k)
          else Inr (masses, k))"

text \<open>
  \<open>sample_angles\<close> and \<open>sample_2body_phasespace\<close> (lines 257 to 288): the result is the action with the two outgoing momenta set, the
  number of draws consumed and the warnings logged.
\<close>

definition sample_angles ::
  "(Action \<Rightarrow> double) \<Rightarrow> draws \<Rightarrow> nat \<Rightarrow> Action \<Rightarrow> double \<times> double
     \<Rightarrow> failure + Action \<times> nat \<times> log_entry list"
where
  "sample_angles sqrt_s u k a masses =
     (if length (outgoing_particles a) < 2 then Inl Undefined_out_of_bounds
      else
        let p_a = outgoing_particles a ! 0;
            p_b = outgoing_particles a ! 1;
            cms_kin_energy = kinetic_energy_cms sqrt_s a;
            pcm = pCM cms_kin_energy (fst masses) (snd masses);
            lg = (if \<not> pcm > 0
                   then [Log_warn_radial_momentum (pdgcode (ptype p_a)) pcm,
                         Log_warn_Ektot cms_kin_energy (fst masses) (snd masses)]
                   else []);
            (phitheta, k') = distribute_isotropically u k Angles_init;
            p_a' = set_4momentum p_a (fst masses) (scale3 (Angles_threevec phitheta) pcm);
            p_b' = set_4momentum p_b (snd masses)
                     (scale3 (neg3 (Angles_threevec phitheta)) pcm)
        in Inr (a\<lparr>outgoing_particles := (outgoing_particles a)[0 := p_a', 1 := p_b']\<rparr>,
                k', lg))"

definition sample_2body_phasespace ::
  "(Action \<Rightarrow> double) \<Rightarrow> mass_sampler \<Rightarrow> masses_sampler \<Rightarrow> draws \<Rightarrow> nat \<Rightarrow> Action
     \<Rightarrow> failure + Action \<times> nat \<times> log_entry list"
where
  "sample_2body_phasespace sqrt_s sample_resonance_mass sample_resonance_masses u k a =
     (if length (outgoing_particles a) \<noteq> 2 then Inl Assertion_failure
      else
        case sample_masses sqrt_s sample_resonance_mass sample_resonance_masses u k a of
          Inl e \<Rightarrow> Inl e
        | Inr (masses, k') \<Rightarrow> sample_angles sqrt_s u k' a masses)"

text \<open>
  \<open>check_conservation\<close> (lines 290 to 319). The class \<^verbatim>\<open>QuantumNumbers\<close> (quantumnumbers.h) and the
  constant \<^verbatim>\<open>ID_PROCESS_PHOTON\<close> (constants.h) are not among the sources; the
  constructor of the snapshot, its \<^verbatim>\<open>operator!=\<close>, \<^verbatim>\<open>report_deviations\<close> and the
  constant are parameters, collected in one record. \<open>to_string\<close> is
  \<^verbatim>\<open>std::to_string\<close> on an unsigned number: its decimal digits.
\<close>

record 'q conservation =
  QuantumNumbers :: "ParticleData list \<Rightarrow> 'q"
  differ :: "'q \<Rightarrow> 'q \<Rightarrow> bool"
  report_deviations :: "'q \<Rightarrow> 'q \<Rightarrow> string"
  ID_PROCESS_PHOTON :: "32 word"

fun to_string :: "nat \<Rightarrow> string" where
  "to_string n =
     (if n < 10 then [''0123456789'' ! n]
      else to_string (n div 10) @ [''0123456789'' ! (n mod 10)])"

declare to_string.simps [simp del]

definition check_conservation ::
  "'q conservation \<Rightarrow> Action \<Rightarrow> 32 word \<Rightarrow> log_entry list \<times> failure option"
where
  "check_conservation c a id_proc =
     (let before = QuantumNumbers c (incoming_particles a);
          after = QuantumNumbers c (outgoing_particles a)
      in if differ c before after then
           (let particle_names =
                  concat (map (\<lambda>p. name (ptype p)) (incoming_particles a)) @ '' vs. '' @
                  concat (map (\<lambda>p. name (ptype p)) (outgoing_particles a)) @ [CHR 0x0A];
                err_msg = report_deviations c before after;
                lg = [Log_error (particle_names @ err_msg)]
            in if process_type a = StringSoft \<or> process_type a = StringHard then (lg, None)
               else if id_proc = ID_PROCESS_PHOTON c then
                 (lg, Some (Threw_runtime_error
                                ''Conservation laws violated in photon process''))
               else
                 (lg, Some (Threw_runtime_error
                                (''Conservation laws violated in process '' @
                                 to_string (unat id_proc)))))
         else ([], None))"

text \<open>
  \<open>perform\<close> (lines 97 to 124). The result is the action (whose outgoing particles carry the new
  history), the shared collection and the log after the call, and the failure that
  ended the call, if any. A failed \<^verbatim>\<open>assert\<close> ends the program at once.
\<close>

definition stamp_history :: "Action \<Rightarrow> 32 word \<Rightarrow> ParticleData \<Rightarrow> ParticleData" where
  "stamp_history a id_proc p =
     (if process_type a \<noteq> Wall
      then set_history p (collisions_per_particle (get_history p) + 1) id_proc
             (process_type a) (time_of_execution a) (incoming_particles a)
      else p)"

record performed =
  action_after :: Action
  particles_after :: Particles
  logged :: "log_entry list"
  failed :: "failure option"

definition perform :: "'q conservation \<Rightarrow> Action \<Rightarrow> Particles \<Rightarrow> 32 word \<Rightarrow> performed" where
  "perform c a particles id_proc =
     (if id_proc = 0 then
        \<lparr>action_after = a, particles_after = particles, logged = [],
         failed = Some Assertion_failure\<rparr>
      else
        let a1 = a\<lparr>outgoing_particles := map (stamp_history a id_proc) (outgoing_particles a)\<rparr>;
            particles1 = Particles_update particles (incoming_particles a1)
                           (outgoing_particles a1)
                           (process_type a1 \<noteq> Elastic \<and> process_type a1 \<noteq> Wall)
        in if UB_lat a1 = None \<and> UI3_lat a1 = None then
             (let (lg, failure) = check_conservation c a1 id_proc
              in \<lparr>action_after = a1, particles_after = particles1, logged = lg,
                  failed = failure\<rparr>)
           else \<lparr>action_after = a1, particles_after = particles1, logged = [],
                 failed = None\<rparr>)"

section \<open>ScatterActionMulti (scatteractionmulti.cc)\<close>

text \<open>
  Modelled from the spec: the operations of \<^verbatim>\<open>FourVector\<close> that final-state generation
  uses (fourvector.h is absent): the invariant square and the invariant mass \<open>|P|\<close>
  (\<^verbatim>\<open>abs()\<close>), the velocity of a four-momentum (its three-momentum over its energy), and
  the Lorentz boost with a velocity \<open>v\<close>, with \<open>\<gamma> = 1 / sqrt (1 - v\<^sup>2)\<close>.
\<close>

definition dot3 :: "ThreeVector \<Rightarrow> ThreeVector \<Rightarrow> double" where
  "dot3 v w = x1 v * x1 w + x2 v * x2 w + x3 v * x3 w"

definition sqr4 :: "FourVector \<Rightarrow> double" where
  "sqr4 p = x0 p * x0 p - sqr3 (threevec p)"

definition abs4 :: "FourVector \<Rightarrow> double" where
  "abs4 p = sqrt (sqr4 p)"

definition velocity :: "FourVector \<Rightarrow> ThreeVector" where
  "velocity p =
     ThreeVector (x1 (threevec p) / x0 p) (x2 (threevec p) / x0 p) (x3 (threevec p) / x0 p)"

definition lorentz_boost :: "FourVector \<Rightarrow> ThreeVector \<Rightarrow> FourVector" where
  "lorentz_boost p v =
     (let velocity_squared = sqr3 v;
          gamma = 1 / sqrt (1 - velocity_squared);
          xprime_0 = gamma * (x0 p - dot3 (threevec p) v);
          constantpart = gamma / (gamma + 1) * (xprime_0 + x0 p)
      in FourVector xprime_0 (add3 (threevec p) (neg3 (scale3 v constantpart))))"

definition boost_momentum :: "ParticleData \<Rightarrow> ThreeVector \<Rightarrow> ParticleData" where
  "boost_momentum p v = p\<lparr>momentum := lorentz_boost (momentum p) v\<rparr>"

text \<open>
  Modelled from the spec: \<^verbatim>\<open>total_momentum_of_outgoing_particles()\<close> (declared in
  action.h, absent). The specification of final-state generation names it "the three
  incoming particles' combined four-momentum": the sum of the incoming four-momenta.
\<close>

definition total_momentum :: "Action \<Rightarrow> FourVector" where
  "total_momentum a = foldl add4 zero4 (map momentum (incoming_particles a))"

definition total_momentum_of_outgoing_particles :: "Action \<Rightarrow> FourVector" where
  "total_momentum_of_outgoing_particles a = total_momentum a"

text \<open>
  A branch (\<^verbatim>\<open>CollisionBranch\<close>): the outgoing species, the weight and the process type.
  Modelled from the spec: \<^verbatim>\<open>particle_list()\<close> (processbranch.h is absent) makes one
  new particle record per species, without identity, momentum, position or history.
\<close>

record CollisionBranch =
  particle_types :: "ParticleType list"
  weight :: double
  get_type :: ProcessType

definition new_particle :: "ParticleType \<Rightarrow> ParticleData" where
  "new_particle t =
     \<lparr>particle_id = - 1, ptype = t, momentum = zero4, position = zero4,
      get_history = \<lparr>collisions_per_particle = 0, id_process = 0,
                      history_process_type = NoProcess, time_last_collision = 0,
                      parents = []\<rparr>\<rparr>"

definition particle_list :: "CollisionBranch \<Rightarrow> ParticleData list" where
  "particle_list b = map new_particle (particle_types b)"

text \<open>
  \<^verbatim>\<open>ScatterActionMulti\<close> is an \<^verbatim>\<open>Action\<close> (the field \<open>base\<close>) with its list of channels
  and its probabilities.
\<close>

record ScatterActionMulti =
  base :: Action
  reaction_channels :: "CollisionBranch list"
  total_probability :: double
  partial_probability :: double

text \<open>
  \<^verbatim>\<open>choose_channel\<close> is a template of action.h, which is not among the sources: it is a
  parameter, which gets the channels, the total weight and the random source, and
  gives a channel and the new position of the random source, or fails.
\<close>

type_synonym channel_chooser =
  "CollisionBranch list \<Rightarrow> double \<Rightarrow> draws \<Rightarrow> nat \<Rightarrow> failure + CollisionBranch \<times> nat"

definition annihilation :: "ScatterActionMulti \<Rightarrow> failure + ScatterActionMulti" where
  "annihilation a =
     (if length (outgoing_particles (base a)) \<noteq> 1
      then Inl (Threw_InvalidScatterActionMulti_count (length (outgoing_particles (base a))))
      else Inr (a\<lparr>base := (base a)\<lparr>outgoing_particles :=
                  (outgoing_particles (base a))
                    [0 := set_4momentum (outgoing_particles (base a) ! 0)
                            (abs4 (total_momentum_of_outgoing_particles (base a)))
                            (ThreeVector 0 0 0)]\<rparr>\<rparr>))"

text \<open>
  \<open>annihilation\<close> (scatteractionmulti.cc, lines 114 to 130) and \<open>generate_final_state\<close>
  (lines 56 to 90), the latter in the three steps of the source: the channel is chosen and
  copied into the action; the \<^verbatim>\<open>switch\<close> on the process type computes the momenta in the
  rest frame; the loop boosts every outgoing particle and places it at the interaction
  point. The loop calls \<^verbatim>\<open>total_momentum_of_outgoing_particles()\<close> anew for each particle;
  it does not depend on the outgoing momenta, so the loop is a \<open>map\<close>.
\<close>

definition take_channel :: "ScatterActionMulti \<Rightarrow> CollisionBranch \<Rightarrow> ScatterActionMulti" where
  "take_channel a proc =
     a\<lparr>base := (base a)\<lparr>process_type := get_type proc,
                          outgoing_particles := particle_list proc\<rparr>,
       partial_probability := weight proc\<rparr>"

definition switch_process_type :: "ScatterActionMulti \<Rightarrow> failure + ScatterActionMulti" where
  "switch_process_type a =
     (if process_type (base a) = MultiParticleThreePionsToOmega then annihilation a
      else Inl (Threw_InvalidScatterActionMulti_type (process_type (base a))))"

definition boost_and_place :: "ScatterActionMulti \<Rightarrow> ScatterActionMulti" where
  "boost_and_place a =
     (let middle_point = get_interaction_point (base a)
      in a\<lparr>base := (base a)\<lparr>outgoing_particles :=
            map (\<lambda>p. set_4position
                        (boost_momentum p
                           (neg3 (velocity (total_momentum_of_outgoing_particles (base a)))))
                        middle_point)
                (outgoing_particles (base a))\<rparr>\<rparr>)"

definition generate_final_state ::
  "channel_chooser \<Rightarrow> draws \<Rightarrow> nat \<Rightarrow> ScatterActionMulti \<Rightarrow> failure + ScatterActionMulti \<times> nat"
where
  "generate_final_state choose_channel u k a =
     (case choose_channel (reaction_channels a) (total_probability a) u k of
        Inl e \<Rightarrow> Inl e
      | Inr (proc, k') \<Rightarrow>
          (case switch_process_type (take_channel a proc) of
             Inl e \<Rightarrow> Inl e
           | Inr a2 \<Rightarrow> Inr (boost_and_place a2, k')))"

text \<open>
  A four-momentum of a massive particle: positive energy, and a three-momentum smaller
  than the energy. The momentum of every on-shell particle of positive mass is one.
\<close>

definition massive :: "FourVector \<Rightarrow> bool" where
  "massive p \<longleftrightarrow> 0 < x0 p \<and> sqr3 (threevec p) < x0 p * x0 p"

section \<open>Concrete inputs\<close>

text \<open>
  The species of the unit tests (proton and neutron of tests/pauliblocking.cc), the
  three pions and the omega meson, and particles and actions built from them. They are
  the inputs at which the theorems below are instantiated.
\<close>

definition proton :: ParticleType where
  "proton = \<lparr>name = ''proton'', mass = 938 / 1000, min_mass_kinematic = 938 / 1000,
     is_stable = True, isospin3_rel = 1, pdgcode = 2212, is_baryon = True\<rparr>"

definition pi_plus :: ParticleType where
  "pi_plus = \<lparr>name = ''pi+'', mass = 138 / 1000, min_mass_kinematic = 138 / 1000,
     is_stable = True, isospin3_rel = 1, pdgcode = 211, is_baryon = False\<rparr>"

definition pi_zero :: ParticleType where
  "pi_zero = \<lparr>name = ''pi0'', mass = 138 / 1000, min_mass_kinematic = 138 / 1000,
     is_stable = True, isospin3_rel = 0, pdgcode = 111, is_baryon = False\<rparr>"

definition pi_minus :: ParticleType where
  "pi_minus = \<lparr>name = ''pi-'', mass = 138 / 1000, min_mass_kinematic = 138 / 1000,
     is_stable = True, isospin3_rel = - 1, pdgcode = - 211, is_baryon = False\<rparr>"

definition omega :: ParticleType where
  "omega = \<lparr>name = ''omega'', mass = 783 / 1000, min_mass_kinematic = 414 / 1000,
     is_stable = False, isospin3_rel = 0, pdgcode = 223, is_baryon = False\<rparr>"

definition Delta_plus :: ParticleType where
  "Delta_plus = \<lparr>name = ''Delta+'', mass = 1232 / 1000, min_mass_kinematic = 1076 / 1000,
     is_stable = False, isospin3_rel = 1 / 3, pdgcode = 2214, is_baryon = True\<rparr>"

definition no_history :: HistoryData where
  "no_history = \<lparr>collisions_per_particle = 0, id_process = 0,
     history_process_type = NoProcess, time_last_collision = 0, parents = []\<rparr>"

definition particle :: "int \<Rightarrow> ParticleType \<Rightarrow> FourVector \<Rightarrow> FourVector \<Rightarrow> ParticleData" where
  "particle i t mom pos =
     \<lparr>particle_id = i, ptype = t, momentum = mom, position = pos, get_history = no_history\<rparr>"

definition at_rest :: "int \<Rightarrow> ParticleType \<Rightarrow> ParticleData" where
  "at_rest i t = particle i t (FourVector (mass t) zero3) zero4"

definition action :: "ParticleData list \<Rightarrow> ParticleData list \<Rightarrow> ProcessType \<Rightarrow> Action" where
  "action inc out pt =
     \<lparr>incoming_particles = inc, outgoing_particles = out, time_of_execution = 0,
      process_type = pt, UB_lat = None, UI3_lat = None, pot = None\<rparr>"

text \<open>
  The decay of a Delta resonance of mass 1.08 GeV at rest into a proton and a pion, in
  an isospin-coupled potential of 0.03 GeV that acts on baryons with the force scale 1.
  The scale difference is \<open>1/3 - 1\<close>, so the kinetic energy is \<open>1.08 - 0.02 = 1.06\<close> GeV,
  below the sum \<open>0.938 + 0.138 = 1.076\<close> GeV of the two minimum masses.
\<close>

definition Delta_decay :: Action where
  "Delta_decay =
     \<lparr>incoming_particles = [particle 7 Delta_plus (FourVector (108 / 100) zero3) zero4],
      outgoing_particles = [at_rest 8 proton, at_rest 9 pi_zero],
      time_of_execution = 0, process_type = Other_process 5,
      UB_lat = None, UI3_lat = Some (\<lambda>r. Some (3 / 100)),
      pot = Some (\<lambda>t. if is_baryon t then (1, 1) else (0, 0))\<rparr>"

text \<open>
  A conservation checker for the examples: the snapshot of a particle list is its
  number of baryons, and two snapshots differ when the numbers differ. The photon
  process has the id 1.
\<close>

definition count_baryons :: "nat conservation" where
  "count_baryons =
     \<lparr>QuantumNumbers = (\<lambda>ps. length (filter (\<lambda>p. is_baryon (ptype p)) ps)),
      differ = (\<lambda>m n. m \<noteq> n),
      report_deviations = (\<lambda>m n. ''baryon number''),
      ID_PROCESS_PHOTON = 1\<rparr>"


text \<open>
  Three pions of the three charge states, on their mass shell (mass 0.138 GeV): two
  with a momentum of 0.1035 GeV and the energy 0.1725 GeV, one at rest; and the action
  of their fusion, with the omega meson as its one channel.
\<close>

definition three_pions :: "ParticleData list" where
  "three_pions =
     [particle 1 pi_plus (FourVector (1725 / 10000) (ThreeVector (1035 / 10000) 0 0))
        (FourVector 0 (ThreeVector 0 0 0)),
      particle 2 pi_minus (FourVector (1725 / 10000) (ThreeVector 0 (- 1035 / 10000) 0))
        (FourVector 0 (ThreeVector 3 0 0)),
      particle 3 pi_zero (FourVector (138 / 1000) (ThreeVector 0 0 0))
        (FourVector 0 (ThreeVector 0 3 0))]"

definition fusion :: "ParticleType list \<Rightarrow> ScatterActionMulti" where
  "fusion ts =
     \<lparr>base = action three_pions [] NoProcess,
      reaction_channels =
        [\<lparr>particle_types = ts, weight = 1, get_type = MultiParticleThreePionsToOmega\<rparr>],
      total_probability = 1, partial_probability = 0\<rparr>"

section \<open>Properties of Angles\<close>

lemma sintheta_nonneg: "costheta_in_range a \<Longrightarrow> 0 \<le> sintheta a"
proof -
  assume "costheta_in_range a"
  then have "\<bar>costheta_m a\<bar> \<le> 1"
    by (simp add: costheta_in_range_def abs_le_iff)
  then have "costheta_m a * costheta_m a \<le> 1"
    by (metis abs_mult_self_eq abs_ge_zero mult_mono mult_1 zero_le_one)
  then show ?thesis
    by (simp add: sintheta_def)
qed

lemma sintheta_sq: "costheta_in_range a \<Longrightarrow> (sintheta a)\<^sup>2 = 1 - (costheta_m a)\<^sup>2"
proof -
  assume r: "costheta_in_range a"
  then have "\<bar>costheta_m a\<bar> \<le> 1"
    by (simp add: costheta_in_range_def abs_le_iff)
  then have "(costheta_m a)\<^sup>2 \<le> 1"
    by (simp add: abs_square_le_1)
  then show ?thesis
    by (simp add: sintheta_def power2_eq_square)
qed

lemma unit_direction:
  "costheta_in_range a \<Longrightarrow> (Angles_x a)\<^sup>2 + (Angles_y a)\<^sup>2 + (Angles_z a)\<^sup>2 = 1"
proof -
  assume r: "costheta_in_range a"
  have "(Angles_x a)\<^sup>2 + (Angles_y a)\<^sup>2 = (sintheta a)\<^sup>2 * ((cos (phi_m a))\<^sup>2 + (sin (phi_m a))\<^sup>2)"
    by (simp only: Angles_x_def Angles_y_def power_mult_distrib distrib_left)
  also have "\<dots> = (sintheta a)\<^sup>2"
    by simp
  finally show ?thesis
    using sintheta_sq [OF r] by (simp add: Angles_z_def)
qed

lemma distribute_isotropically_in_range:
  "unit_draws u \<Longrightarrow> costheta_in_range (fst (distribute_isotropically u k a))"
proof -
  assume "unit_draws u"
  then have "0 \<le> u (Suc k)" "u (Suc k) < 1"
    by (simp_all add: unit_draws_def)
  then show ?thesis
    by (simp add: distribute_isotropically_def costheta_in_range_def)
qed

lemma set_costheta_in_range:
  "snd (set_costheta a c) = None \<Longrightarrow> costheta_in_range (fst (set_costheta a c))"
  by (auto simp: set_costheta_def costheta_in_range_def Let_def split: if_splits)

lemma set_theta_returns: "snd (set_theta a t) = None"
proof -
  have "- 1 \<le> cos t" "cos t \<le> 1"
    by simp_all
  then show ?thesis
    by (simp add: set_theta_def set_costheta_def Let_def not_less)
qed

lemma set_phi_costheta: "costheta_m (set_phi a p) = costheta_m a"
  by (simp add: set_phi_def Let_def)

text \<open>
  What holds of the invariant. An \<open>Angles\<close> value whose stored cosine lies in \<open>[-1, 1]\<close>
  gives a direction of length one, \<open>x()\<^sup>2 + y()\<^sup>2 + z()\<^sup>2 = 1\<close>, and a non-negative
  \<open>sintheta()\<close>. The range of the stored cosine is established by
  \<open>distribute_isotropically\<close> (for draws in \<open>[0, 1)\<close>) and kept by \<open>set_phi\<close>; \<open>set_theta\<close>
  always returns and establishes it; \<open>set_costheta\<close> returns and establishes it for an
  argument in \<open>[-1, 1]\<close>. For any other argument \<open>set_costheta\<close> throws, and the object then
  holds the rejected argument.
\<close>

lemma Angles_invariant_on_return:
  "(costheta_in_range a \<longrightarrow>
      (Angles_x a)\<^sup>2 + (Angles_y a)\<^sup>2 + (Angles_z a)\<^sup>2 = 1 \<and> 0 \<le> sintheta a) \<and>
   (unit_draws u \<longrightarrow> costheta_in_range (fst (distribute_isotropically u k a))) \<and>
   (costheta_in_range a \<longrightarrow> costheta_in_range (set_phi a newphi)) \<and>
   (- 1 \<le> newcos \<and> newcos \<le> 1 \<longrightarrow>
      snd (set_costheta a newcos) = None \<and> costheta_in_range (fst (set_costheta a newcos))) \<and>
   (newcos < - 1 \<or> 1 < newcos \<longrightarrow>
      snd (set_costheta a newcos) = Some (Threw_errormsg newcos) \<and>
      costheta_m (fst (set_costheta a newcos)) = newcos) \<and>
   snd (set_theta a newtheta) = None \<and> costheta_in_range (fst (set_theta a newtheta))"
proof -
  have "snd (set_theta a newtheta) = None"
    by (rule set_theta_returns)
  moreover from this have "costheta_in_range (fst (set_theta a newtheta))"
    unfolding set_theta_def by (rule set_costheta_in_range)
  moreover have "costheta_in_range a \<longrightarrow> costheta_in_range (set_phi a newphi)"
    by (simp add: costheta_in_range_def set_phi_costheta)
  moreover have "- 1 \<le> newcos \<and> newcos \<le> 1 \<longrightarrow>
      snd (set_costheta a newcos) = None \<and> costheta_in_range (fst (set_costheta a newcos))"
    by (auto simp: set_costheta_def Let_def costheta_in_range_def)
  moreover have "newcos < - 1 \<or> 1 < newcos \<longrightarrow>
      snd (set_costheta a newcos) = Some (Threw_errormsg newcos) \<and>
      costheta_m (fst (set_costheta a newcos)) = newcos"
    by (auto simp: set_costheta_def Let_def)
  ultimately show ?thesis
    using unit_direction sintheta_nonneg distribute_isotropically_in_range
    by blast
qed

text \<open>
  Claim C10, at an input where the code departs from it. \<open>set_costheta\<close> is to keep the
  stored cosine in \<open>[-1, 1]\<close>, as its error message says, so that \<open>x()\<close>, \<open>y()\<close>, \<open>z()\<close> are
  a normalized vector, as the comment of the class says. Called with 1.5 on a newly
  constructed object (stored cosine 0, in range), it stores 1.5 before it checks the
  range and then throws: after the call the object holds the cosine 1.5, outside the
  range, \<open>z()\<^sup>2\<close> is 2.25 and the direction is not of length one.
\<close>

theorem set_costheta_stores_before_check:
  "costheta_in_range Angles_init \<and>
   set_costheta Angles_init (3 / 2) =
     (Angles_init\<lparr>costheta_m := 3 / 2\<rparr>, Some (Threw_errormsg (3 / 2))) \<and>
   \<not> costheta_in_range (fst (set_costheta Angles_init (3 / 2))) \<and>
   (Angles_z (fst (set_costheta Angles_init (3 / 2))))\<^sup>2 = 9 / 4 \<and>
   (Angles_x (fst (set_costheta Angles_init (3 / 2))))\<^sup>2 +
   (Angles_y (fst (set_costheta Angles_init (3 / 2))))\<^sup>2 +
   (Angles_z (fst (set_costheta Angles_init (3 / 2))))\<^sup>2 \<noteq> 1"
proof -
  let ?b = "fst (set_costheta Angles_init (3 / 2))"
  have r: "set_costheta Angles_init (3 / 2) =
             (Angles_init\<lparr>costheta_m := 3 / 2\<rparr>, Some (Threw_errormsg (3 / 2)))"
    by (simp add: set_costheta_def Let_def)
  have i: "costheta_in_range Angles_init"
    by (simp add: costheta_in_range_def Angles_init_def)
  have n: "\<not> costheta_in_range ?b"
    by (simp add: r costheta_in_range_def)
  have z: "(Angles_z ?b)\<^sup>2 = 9 / 4"
    by (simp add: r Angles_z_def power2_eq_square)
  have "0 \<le> (Angles_x ?b)\<^sup>2 + (Angles_y ?b)\<^sup>2"
    by simp
  with z have "(Angles_x ?b)\<^sup>2 + (Angles_y ?b)\<^sup>2 + (Angles_z ?b)\<^sup>2 \<noteq> 1"
    by linarith
  with r i n z show ?thesis
    by blast
qed

section \<open>Conservation check\<close>

text \<open>
  Claim C1. When the snapshots of the incoming and the outgoing particles differ,
  \<open>check_conservation\<close> logs the deviation and then fails if and only if the process
  type is neither \<open>StringSoft\<close> nor \<open>StringHard\<close>; for these two types it returns after
  logging. When it fails, the failure for the photon process id and the failure for any
  other process id are different values: both are a \<^verbatim>\<open>std::runtime_error\<close>, and their
  messages differ.
\<close>

theorem check_conservation_fatal_unless_string:
  assumes "differ c (QuantumNumbers c (incoming_particles a))
             (QuantumNumbers c (outgoing_particles a))"
  shows "(snd (check_conservation c a i) \<noteq> None \<longleftrightarrow>
            process_type a \<noteq> StringSoft \<and> process_type a \<noteq> StringHard) \<and>
         (\<exists>msg. fst (check_conservation c a i) = [Log_error msg]) \<and>
         (process_type a \<noteq> StringSoft \<and> process_type a \<noteq> StringHard \<and>
          j \<noteq> ID_PROCESS_PHOTON c \<longrightarrow>
            snd (check_conservation c a (ID_PROCESS_PHOTON c)) =
              Some (Threw_runtime_error ''Conservation laws violated in photon process'') \<and>
            snd (check_conservation c a j) =
              Some (Threw_runtime_error
                      (''Conservation laws violated in process '' @ to_string (unat j))) \<and>
            snd (check_conservation c a (ID_PROCESS_PHOTON c)) \<noteq>
              snd (check_conservation c a j))"
  using assms by (simp add: check_conservation_def Let_def)

theorem check_conservation_fatal_unless_string_witness:
  "snd (check_conservation count_baryons
          (action [at_rest 1 proton, at_rest 2 proton] [at_rest 1 proton] Elastic) 7) \<noteq> None \<and>
   snd (check_conservation count_baryons
          (action [at_rest 1 proton, at_rest 2 proton] [at_rest 1 proton] Elastic) 1) =
     Some (Threw_runtime_error ''Conservation laws violated in photon process'') \<and>
   snd (check_conservation count_baryons
          (action [at_rest 1 proton, at_rest 2 proton] [at_rest 1 proton] Elastic) 7) =
     Some (Threw_runtime_error ''Conservation laws violated in process 7'') \<and>
   snd (check_conservation count_baryons
          (action [at_rest 1 proton, at_rest 2 proton] [at_rest 1 proton] StringSoft) 7) = None"
  using check_conservation_fatal_unless_string
          [of count_baryons "action [at_rest 1 proton, at_rest 2 proton] [at_rest 1 proton] Elastic"
              7 7]
        check_conservation_fatal_unless_string
          [of count_baryons
              "action [at_rest 1 proton, at_rest 2 proton] [at_rest 1 proton] StringSoft" 7 7]
  by (simp add: count_baryons_def action_def at_rest_def particle_def proton_def
        to_string.simps)

section \<open>perform\<close>

text \<open>
  Claim C8. A call of \<open>perform\<close> with the process id 0 fails at once at the assertion:
  the action and the shared collection are as they were before the call, and nothing
  has been logged.
\<close>

theorem perform_zero_process_id:
  "perform c a particles 0 =
     \<lparr>action_after = a, particles_after = particles, logged = [],
      failed = Some Assertion_failure\<rparr>"
  by (simp add: perform_def)

theorem perform_zero_process_id_witness:
  "perform count_baryons (action [at_rest 1 proton, at_rest 2 proton] [at_rest 1 proton] Elastic)
     \<lparr>data = [at_rest 1 proton, at_rest 2 proton], id_max = 2\<rparr> 0 =
   \<lparr>action_after = action [at_rest 1 proton, at_rest 2 proton] [at_rest 1 proton] Elastic,
    particles_after = \<lparr>data = [at_rest 1 proton, at_rest 2 proton], id_max = 2\<rparr>,
    logged = [], failed = Some Assertion_failure\<rparr>"
  by (rule perform_zero_process_id)

text \<open>
  Claim C6. \<open>perform\<close> runs the conservation check exactly when neither potential
  lattice is attached. With both lattice pointers null, the log and the failure of
  \<open>perform\<close> are those of \<open>check_conservation\<close> on the action as committed; with at
  least one lattice attached nothing is logged and the call returns. So, whenever the
  snapshots of the committed action differ, the report of the check is in the log if
  and only if both pointers are null.
\<close>

theorem perform_checks_conservation_iff_no_potential:
  assumes "i \<noteq> 0"
  shows "(UB_lat a = None \<and> UI3_lat a = None \<longrightarrow>
            (logged (perform c a particles i), failed (perform c a particles i)) =
              check_conservation c (action_after (perform c a particles i)) i) \<and>
         (UB_lat a \<noteq> None \<or> UI3_lat a \<noteq> None \<longrightarrow>
            logged (perform c a particles i) = [] \<and> failed (perform c a particles i) = None) \<and>
         (differ c (QuantumNumbers c (incoming_particles (action_after (perform c a particles i))))
            (QuantumNumbers c (outgoing_particles (action_after (perform c a particles i)))) \<longrightarrow>
            (logged (perform c a particles i) \<noteq> [] \<longleftrightarrow> UB_lat a = None \<and> UI3_lat a = None))"
  using assms
  by (auto simp: perform_def Let_def check_conservation_def split: prod.splits)

theorem perform_checks_conservation_iff_no_potential_witness:
  "failed (perform count_baryons
          (action [at_rest 1 proton, at_rest 2 proton] [at_rest 1 proton] (Other_process 3))
          \<lparr>data = [at_rest 1 proton, at_rest 2 proton], id_max = 2\<rparr> 5) =
     Some (Threw_runtime_error ''Conservation laws violated in process 5'') \<and>
   failed (perform count_baryons
          ((action [at_rest 1 proton, at_rest 2 proton] [at_rest 1 proton] (Other_process 3))
             \<lparr>UB_lat := Some (\<lambda>r. None)\<rparr>)
          \<lparr>data = [at_rest 1 proton, at_rest 2 proton], id_max = 2\<rparr> 5) = None"
proof -
  let ?a = "action [at_rest 1 proton, at_rest 2 proton] [at_rest 1 proton] (Other_process 3)"
  let ?ps = "\<lparr>data = [at_rest 1 proton, at_rest 2 proton], id_max = 2\<rparr>"
  have nz: "(5 :: 32 word) \<noteq> 0"
    by simp
  have a': "action_after (perform count_baryons ?a ?ps 5) =
              ?a\<lparr>outgoing_particles := map (stamp_history ?a 5) (outgoing_particles ?a)\<rparr>"
    by (simp add: perform_def Let_def split: prod.splits)
  have "(logged (perform count_baryons ?a ?ps 5), failed (perform count_baryons ?a ?ps 5)) =
          check_conservation count_baryons (action_after (perform count_baryons ?a ?ps 5)) 5"
    using perform_checks_conservation_iff_no_potential
            [OF nz, where c = count_baryons and a = ?a and particles = ?ps]
    by (simp add: action_def)
  then have 1: "failed (perform count_baryons ?a ?ps 5) =
                  Some (Threw_runtime_error ''Conservation laws violated in process 5'')"
    unfolding a'
    by (simp add: check_conservation_def Let_def count_baryons_def action_def
          stamp_history_def set_history_def at_rest_def particle_def proton_def
          to_string.simps)
  have 2: "failed (perform count_baryons (?a\<lparr>UB_lat := Some (\<lambda>r. None)\<rparr>) ?ps 5) = None"
    using perform_checks_conservation_iff_no_potential
            [OF nz, where c = count_baryons and a = "?a\<lparr>UB_lat := Some (\<lambda>r. None)\<rparr>"
               and particles = ?ps]
    by simp
  from 1 2 show ?thesis
    by simp
qed

section \<open>Pauli blocking\<close>

text \<open>
  The loop of \<open>is_pauli_blocked\<close>, in terms of the outgoing baryons \<open>bs\<close> in their order:
  the \<open>i\<close>-th baryon is compared with the \<open>i\<close>-th draw from the current position \<open>k\<close> of
  the random source.
\<close>

lemma pauli_loop_char:
  "pauli_loop p_bl P inc u ps k = (b, k') \<Longrightarrow>
   bs = filter (\<lambda>p. is_baryon (ptype p)) ps \<Longrightarrow>
   (b \<longrightarrow> (\<exists>i<length bs. phasespace_dens p_bl P inc (bs ! i) > u (k + i) \<and>
              (\<forall>j<i. \<not> phasespace_dens p_bl P inc (bs ! j) > u (k + j)) \<and> k' = k + i + 1)) \<and>
   (\<not> b \<longrightarrow> (\<forall>i<length bs. \<not> phasespace_dens p_bl P inc (bs ! i) > u (k + i)) \<and>
              k' = k + length bs)"
proof (induction ps arbitrary: k bs)
  case Nil
  then show ?case by auto
next
  case (Cons p ps)
  show ?case
  proof (cases "is_baryon (ptype p)")
    case False
    with Cons.prems have "pauli_loop p_bl P inc u ps k = (b, k')"
      and "bs = filter (\<lambda>p. is_baryon (ptype p)) ps"
      by simp_all
    then show ?thesis by (rule Cons.IH)
  next
    case True
    define bs' where "bs' = filter (\<lambda>p. is_baryon (ptype p)) ps"
    have bs: "bs = p # bs'"
      using True Cons.prems(2) by (simp add: bs'_def)
    show ?thesis
    proof (cases "phasespace_dens p_bl P inc p > u k")
      case True
      with \<open>is_baryon (ptype p)\<close> Cons.prems(1) have "b" "k' = Suc k"
        by (simp_all add: Let_def)
      with True bs show ?thesis
        by (intro conjI impI) (auto intro!: exI [of _ 0])
    next
      case False
      with \<open>is_baryon (ptype p)\<close> Cons.prems(1)
      have rec: "pauli_loop p_bl P inc u ps (Suc k) = (b, k')"
        by (simp add: Let_def)
      note IH = Cons.IH [OF rec bs'_def]
      show ?thesis
      proof (cases b)
        case True
        with IH obtain i where i: "i < length bs'"
          "phasespace_dens p_bl P inc (bs' ! i) > u (Suc k + i)"
          "\<forall>j<i. \<not> phasespace_dens p_bl P inc (bs' ! j) > u (Suc k + j)"
          "k' = Suc k + i + 1"
          by blast
        have "\<forall>j<Suc i. \<not> phasespace_dens p_bl P inc (bs ! j) > u (k + j)"
        proof (intro allI impI)
          fix j assume "j < Suc i"
          then show "\<not> phasespace_dens p_bl P inc (bs ! j) > u (k + j)"
            using False i(3) bs by (cases j) auto
        qed
        with i bs have "\<exists>i<length bs. phasespace_dens p_bl P inc (bs ! i) > u (k + i) \<and>
              (\<forall>j<i. \<not> phasespace_dens p_bl P inc (bs ! j) > u (k + j)) \<and> k' = k + i + 1"
          by (intro exI [of _ "Suc i"]) simp
        with True show ?thesis by simp
      next
        case nb: False
        with IH have a: "\<forall>i<length bs'. \<not> phasespace_dens p_bl P inc (bs' ! i) > u (Suc k + i)"
          and k': "k' = Suc k + length bs'"
          by blast+
        have "\<forall>i<length bs. \<not> phasespace_dens p_bl P inc (bs ! i) > u (k + i)"
        proof (intro allI impI)
          fix i assume "i < length bs"
          then show "\<not> phasespace_dens p_bl P inc (bs ! i) > u (k + i)"
            using False a bs by (cases i) auto
        qed
        with k' bs nb show ?thesis
          by simp
      qed
    qed
  qed
qed

text \<open>
  Claim C2. A wall-crossing action is never blocked, and no draw is consumed. For any
  other action: if the density of every outgoing baryon is 0, the action is not blocked
  for any draws in \<open>[0, 1)\<close>; if the density of some outgoing baryon is 1, it is blocked
  for all draws in \<open>[0, 1)\<close>; in general it is blocked if and only if the density of some
  outgoing baryon exceeds the draw made for it, and then the loop has stopped at the
  first such baryon: the number of draws consumed is its place in the list of baryons.
\<close>

theorem is_pauli_blocked_iff:
  "(process_type a = Wall \<longrightarrow> is_pauli_blocked a particles p_bl u k = (False, k)) \<and>
   (process_type a \<noteq> Wall \<longrightarrow>
      (let bs = filter (\<lambda>p. is_baryon (ptype p)) (outgoing_particles a);
           f = phasespace_dens p_bl particles (incoming_particles a);
           r = is_pauli_blocked a particles p_bl u k
       in (unit_draws u \<and> (\<forall>p\<in>set bs. f p = 0) \<longrightarrow> \<not> fst r) \<and>
          (unit_draws u \<and> (\<exists>p\<in>set bs. f p = 1) \<longrightarrow> fst r) \<and>
          (fst r \<longleftrightarrow> (\<exists>i<length bs. f (bs ! i) > u (k + i))) \<and>
          (fst r \<longrightarrow> (\<exists>i<length bs. f (bs ! i) > u (k + i) \<and>
                        (\<forall>j<i. \<not> f (bs ! j) > u (k + j)) \<and> snd r = k + i + 1)) \<and>
          (\<not> fst r \<longrightarrow> snd r = k + length bs)))"
proof (intro conjI impI)
  assume "process_type a = Wall"
  then show "is_pauli_blocked a particles p_bl u k = (False, k)"
    by (simp add: is_pauli_blocked_def)
next
  assume nw: "process_type a \<noteq> Wall"
  define bs where "bs = filter (\<lambda>p. is_baryon (ptype p)) (outgoing_particles a)"
  define f where "f = phasespace_dens p_bl particles (incoming_particles a)"
  define r where "r = is_pauli_blocked a particles p_bl u k"
  have "pauli_loop p_bl particles (incoming_particles a) u (outgoing_particles a) k =
          (fst r, snd r)"
    using nw by (simp add: r_def is_pauli_blocked_def)
  note ch = pauli_loop_char [OF this bs_def, folded f_def]
  have iff: "fst r \<longleftrightarrow> (\<exists>i<length bs. f (bs ! i) > u (k + i))"
    using ch by blast
  have zero: "\<not> fst r" if "unit_draws u" "\<forall>p\<in>set bs. f p = 0"
  proof
    assume "fst r"
    with iff obtain i where "i < length bs" "f (bs ! i) > u (k + i)"
      by blast
    moreover from this that(2) have "f (bs ! i) = 0"
      by simp
    moreover have "0 \<le> u (k + i)"
      using that(1) by (simp add: unit_draws_def)
    ultimately show False
      by simp
  qed
  have one: "fst r" if "unit_draws u" "\<exists>p\<in>set bs. f p = 1"
  proof -
    from that(2) obtain i where "i < length bs" "f (bs ! i) = 1"
      by (auto simp: in_set_conv_nth)
    moreover have "u (k + i) < 1"
      using that(1) by (simp add: unit_draws_def)
    ultimately show ?thesis
      using iff by auto
  qed
  show "let bs = filter (\<lambda>p. is_baryon (ptype p)) (outgoing_particles a);
           f = phasespace_dens p_bl particles (incoming_particles a);
           r = is_pauli_blocked a particles p_bl u k
       in (unit_draws u \<and> (\<forall>p\<in>set bs. f p = 0) \<longrightarrow> \<not> fst r) \<and>
          (unit_draws u \<and> (\<exists>p\<in>set bs. f p = 1) \<longrightarrow> fst r) \<and>
          (fst r \<longleftrightarrow> (\<exists>i<length bs. f (bs ! i) > u (k + i))) \<and>
          (fst r \<longrightarrow> (\<exists>i<length bs. f (bs ! i) > u (k + i) \<and>
                        (\<forall>j<i. \<not> f (bs ! j) > u (k + j)) \<and> snd r = k + i + 1)) \<and>
          (\<not> fst r \<longrightarrow> snd r = k + length bs)"
    unfolding Let_def bs_def [symmetric] f_def [symmetric] r_def [symmetric]
    using zero one iff ch by blast
qed


theorem is_pauli_blocked_iff_witness:
  "fst (is_pauli_blocked (action [at_rest 1 proton] [at_rest 1 proton, at_rest 2 pi_zero] Elastic)
          \<lparr>data = [at_rest 1 proton], id_max = 1\<rparr> (\<lambda>r p ps c inc. 1) (\<lambda>i. 1 / 2) 0) \<and>
   \<not> fst (is_pauli_blocked (action [at_rest 1 proton] [at_rest 1 proton, at_rest 2 pi_zero] Elastic)
          \<lparr>data = [at_rest 1 proton], id_max = 1\<rparr> (\<lambda>r p ps c inc. 0) (\<lambda>i. 1 / 2) 0) \<and>
   is_pauli_blocked (action [at_rest 1 proton] [at_rest 1 proton, at_rest 2 pi_zero] Wall)
          \<lparr>data = [at_rest 1 proton], id_max = 1\<rparr> (\<lambda>r p ps c inc. 1) (\<lambda>i. 1 / 2) 0 = (False, 0)"
proof -
  let ?ps = "\<lparr>data = [at_rest 1 proton], id_max = 1\<rparr>"
  let ?a = "action [at_rest 1 proton] [at_rest 1 proton, at_rest 2 pi_zero] Elastic"
  let ?w = "action [at_rest 1 proton] [at_rest 1 proton, at_rest 2 pi_zero] Wall"
  have u: "unit_draws (\<lambda>i. 1 / 2)"
    by (simp add: unit_draws_def)
  have bs: "filter (\<lambda>p. is_baryon (ptype p)) (outgoing_particles ?a) = [at_rest 1 proton]"
    by (simp add: action_def at_rest_def particle_def proton_def pi_zero_def)
  have nw: "process_type ?a \<noteq> Wall" and w: "process_type ?w = Wall"
    by (simp_all add: action_def)
  have 1: "fst (is_pauli_blocked ?a ?ps (\<lambda>r p ps c inc. 1) (\<lambda>i. 1 / 2) 0)"
    using is_pauli_blocked_iff [of ?a ?ps "\<lambda>r p ps c inc. 1" "\<lambda>i. 1 / 2" 0] u nw
    by (simp add: Let_def bs phasespace_dens_def)
  have 2: "\<not> fst (is_pauli_blocked ?a ?ps (\<lambda>r p ps c inc. 0) (\<lambda>i. 1 / 2) 0)"
    using is_pauli_blocked_iff [of ?a ?ps "\<lambda>r p ps c inc. 0" "\<lambda>i. 1 / 2" 0] u nw
    by (simp add: Let_def bs phasespace_dens_def)
  have 3: "is_pauli_blocked ?w ?ps (\<lambda>r p ps c inc. 1) (\<lambda>i. 1 / 2) 0 = (False, 0)"
    using is_pauli_blocked_iff [of ?w ?ps "\<lambda>r p ps c inc. 1" "\<lambda>i. 1 / 2" 0] w
    by simp
  from 1 2 3 show ?thesis
    by simp
qed

section \<open>Two-body kinematics\<close>

text \<open>Without potential lattices the kinetic energy is \<^verbatim>\<open>sqrt_s()\<close>.\<close>

lemma kinetic_energy_cms_no_potential:
  "UB_lat a = None \<Longrightarrow> UI3_lat a = None \<Longrightarrow> kinetic_energy_cms sqrt_s a = sqrt_s a"
  by (simp add: kinetic_energy_cms_def get_potential_at_interaction_point_def Let_def)

text \<open>
  Claim C9. With two outgoing particles, the branch of \<open>sample_masses\<close> for missing
  energy reads the first and the second incoming particle for the reaction name of its
  exception. With at least two incoming particles it throws
  \<^verbatim>\<open>InvalidResonanceFormation\<close> with that name; with a single incoming particle the
  read of the second one is out of bounds. \<open>sample_masses\<close> indexes out of bounds exactly
  when the energy is below the threshold and there are fewer than two incoming
  particles.
\<close>

theorem sample_masses_reads_second_incoming:
  assumes "2 \<le> length (outgoing_particles a)"
  shows "(kinetic_energy_cms sqrt_s a <
            min_mass_kinematic (ptype (outgoing_particles a ! 0)) +
            min_mass_kinematic (ptype (outgoing_particles a ! 1)) \<and>
          2 \<le> length (incoming_particles a) \<longrightarrow>
            sample_masses sqrt_s srm srms u k a =
              Inl (Threw_InvalidResonanceFormation
                     (name (ptype (incoming_particles a ! 0)) @
                      name (ptype (incoming_particles a ! 1)) @ arrow @
                      name (ptype (outgoing_particles a ! 0)) @
                      name (ptype (outgoing_particles a ! 1)))
                     (kinetic_energy_cms sqrt_s a)
                     (min_mass_kinematic (ptype (outgoing_particles a ! 0)))
                     (min_mass_kinematic (ptype (outgoing_particles a ! 1))))) \<and>
         (kinetic_energy_cms sqrt_s a <
            min_mass_kinematic (ptype (outgoing_particles a ! 0)) +
            min_mass_kinematic (ptype (outgoing_particles a ! 1)) \<and>
          length (incoming_particles a) = 1 \<longrightarrow>
            sample_masses sqrt_s srm srms u k a = Inl Undefined_out_of_bounds) \<and>
         (sample_masses sqrt_s srm srms u k a = Inl Undefined_out_of_bounds \<longleftrightarrow>
            kinetic_energy_cms sqrt_s a <
              min_mass_kinematic (ptype (outgoing_particles a ! 0)) +
              min_mass_kinematic (ptype (outgoing_particles a ! 1)) \<and>
            length (incoming_particles a) < 2)"
  using assms
  by (auto simp: sample_masses_def Let_def split: prod.splits)

theorem sample_masses_reads_second_incoming_witness:
  "sample_masses (\<lambda>a. 108 / 100) (\<lambda>t m e u k. (m, k)) (\<lambda>t t' e u k. ((e, e), k))
     (\<lambda>i. 1 / 2) 0 Delta_decay = Inl Undefined_out_of_bounds \<and>
   sample_masses (\<lambda>a. 1 / 5) (\<lambda>t m e u k. (m, k)) (\<lambda>t t' e u k. ((e, e), k)) (\<lambda>i. 1 / 2) 0
     (action [at_rest 1 pi_zero, at_rest 2 pi_zero] [at_rest 2 pi_plus, at_rest 3 pi_minus]
        (Other_process 3)) =
     Inl (Threw_InvalidResonanceFormation (''pi0pi0'' @ arrow @ ''pi+pi-'') (1 / 5)
            (138 / 1000) (138 / 1000))"
proof -
  let ?s = "action [at_rest 1 pi_zero, at_rest 2 pi_zero] [at_rest 2 pi_plus, at_rest 3 pi_minus]
              (Other_process 3)"
  have d: "kinetic_energy_cms (\<lambda>a. 108 / 100) Delta_decay = 106 / 100"
    by (simp add: kinetic_energy_cms_def get_potential_at_interaction_point_def Let_def
          Delta_decay_def scale_step_def force_scale_of_def particle_def at_rest_def
          Delta_plus_def proton_def pi_zero_def)
  have e: "kinetic_energy_cms (\<lambda>a. 1 / 5) ?s = 1 / 5"
    by (simp add: kinetic_energy_cms_no_potential action_def)
  have o: "2 \<le> length (outgoing_particles Delta_decay)" "2 \<le> length (outgoing_particles ?s)"
    by (simp_all add: action_def Delta_decay_def)
  have 1: "sample_masses (\<lambda>a. 108 / 100) (\<lambda>t m e u k. (m, k)) (\<lambda>t t' e u k. ((e, e), k))
             (\<lambda>i. 1 / 2) 0 Delta_decay = Inl Undefined_out_of_bounds"
    using sample_masses_reads_second_incoming
            [OF o(1), of "\<lambda>a. 108 / 100" "\<lambda>t m e u k. (m, k)" "\<lambda>t t' e u k. ((e, e), k)"
               "\<lambda>i. 1 / 2" 0, THEN conjunct2, THEN conjunct1]
    unfolding d
    by (simp add: Delta_decay_def at_rest_def particle_def proton_def pi_zero_def)
  have 2: "sample_masses (\<lambda>a. 1 / 5) (\<lambda>t m e u k. (m, k)) (\<lambda>t t' e u k. ((e, e), k))
             (\<lambda>i. 1 / 2) 0 ?s =
           Inl (Threw_InvalidResonanceFormation (''pi0pi0'' @ arrow @ ''pi+pi-'') (1 / 5)
                  (138 / 1000) (138 / 1000))"
    using sample_masses_reads_second_incoming
            [OF o(2), of "\<lambda>a. 1 / 5" "\<lambda>t m e u k. (m, k)" "\<lambda>t t' e u k. ((e, e), k)"
               "\<lambda>i. 1 / 2" 0, THEN conjunct1]
    unfolding e
    by (simp add: action_def at_rest_def particle_def pi_plus_def pi_minus_def pi_zero_def)
  from 1 2 show ?thesis
    by (rule conjI)
qed

text \<open>
  Claim C5, at an input where the code departs from it: the decay \<open>Delta_decay\<close> of one
  resonance into two particles, with a kinetic energy of 1.06 GeV below the sum
  1.076 GeV of the two minimum masses. The claim asks for the exception for missing
  energy; the code indexes the incoming particles out of bounds.
\<close>

theorem sample_masses_decay_below_threshold:
  "kinetic_energy_cms (\<lambda>a. 108 / 100) Delta_decay = 106 / 100 \<and>
   sample_masses (\<lambda>a. 108 / 100) srm srms u k Delta_decay = Inl Undefined_out_of_bounds"
proof -
  have e: "kinetic_energy_cms (\<lambda>a. 108 / 100) Delta_decay = 106 / 100"
    by (simp add: kinetic_energy_cms_def get_potential_at_interaction_point_def Let_def
          Delta_decay_def scale_step_def force_scale_of_def particle_def at_rest_def
          Delta_plus_def proton_def pi_zero_def)
  have "sample_masses (\<lambda>a. 108 / 100) srm srms u k Delta_decay = Inl Undefined_out_of_bounds"
    unfolding sample_masses_def Let_def e
    by (simp add: Delta_decay_def at_rest_def particle_def proton_def pi_zero_def)
  with e show ?thesis
    by simp
qed

text \<open>
  With at least two incoming particles \<open>sample_masses\<close> does what claim C5 says: it
  throws \<^verbatim>\<open>InvalidResonanceFormation\<close> exactly when the energy is below the sum of the
  two minimum masses, and otherwise returns the pole masses of two stable species
  without a draw.
\<close>

lemma sample_masses_two_incoming:
  assumes "2 \<le> length (outgoing_particles a)" "2 \<le> length (incoming_particles a)"
  shows "((\<exists>r e m m'. sample_masses sqrt_s srm srms u k a =
             Inl (Threw_InvalidResonanceFormation r e m m')) \<longleftrightarrow>
            kinetic_energy_cms sqrt_s a <
              min_mass_kinematic (ptype (outgoing_particles a ! 0)) +
              min_mass_kinematic (ptype (outgoing_particles a ! 1))) \<and>
         (\<not> kinetic_energy_cms sqrt_s a <
              min_mass_kinematic (ptype (outgoing_particles a ! 0)) +
              min_mass_kinematic (ptype (outgoing_particles a ! 1)) \<and>
          is_stable (ptype (outgoing_particles a ! 0)) \<and>
          is_stable (ptype (outgoing_particles a ! 1)) \<longrightarrow>
            sample_masses sqrt_s srm srms u k a =
              Inr ((mass (ptype (outgoing_particles a ! 0)),
                    mass (ptype (outgoing_particles a ! 1))), k))"
  using assms
  by (auto simp: sample_masses_def Let_def split: prod.splits)

lemma sqr3_scale3: "sqr3 (scale3 v c) = sqr3 v * (c * c)"
  by (simp add: sqr3_def scale3_def algebra_simps)

lemma sqr3_neg3: "sqr3 (neg3 v) = sqr3 v"
  by (simp add: sqr3_def neg3_def)

lemma add3_scale3_neg3: "add3 (scale3 v c) (scale3 (neg3 v) c) = zero3"
  by (simp add: add3_def scale3_def neg3_def zero3_def)

lemma sqr3_Angles_threevec:
  "costheta_in_range a \<Longrightarrow> sqr3 (Angles_threevec a) = 1"
  using unit_direction [of a]
  by (simp add: sqr3_def Angles_threevec_def power2_eq_square)

lemma pCM_sqr_nonneg:
  assumes "0 \<le> m_a" "0 \<le> m_b" "m_a + m_b \<le> e"
  shows "0 \<le> pCM_sqr e m_a m_b"
proof -
  have e: "0 \<le> e" using assms by simp
  have "(m_a + m_b) * (m_a + m_b) \<le> e * e"
    using assms by (intro mult_mono) simp_all
  moreover have "\<bar>m_a - m_b\<bar> \<le> e"
    using assms by simp
  then have "\<bar>m_a - m_b\<bar> * \<bar>m_a - m_b\<bar> \<le> e * e"
    using e by (intro mult_mono) simp_all
  then have "(m_a - m_b) * (m_a - m_b) \<le> e * e"
    by simp
  ultimately show ?thesis
    by (simp add: pCM_sqr_def)
qed

lemma energy_a:
  assumes "e \<noteq> 0"
  shows "m_a * m_a + pCM_sqr e m_a m_b = ((e * e + m_a * m_a - m_b * m_b) / (2 * e))\<^sup>2"
  using assms by (simp add: pCM_sqr_def power2_eq_square field_simps)

lemma energy_b:
  assumes "e \<noteq> 0"
  shows "m_b * m_b + pCM_sqr e m_a m_b = ((e * e - m_a * m_a + m_b * m_b) / (2 * e))\<^sup>2"
  using assms by (simp add: pCM_sqr_def power2_eq_square field_simps)

lemma two_body_energies:
  assumes "0 \<le> m_a" "0 \<le> m_b" "m_a + m_b \<le> e"
  shows "sqrt (m_a * m_a + pCM_sqr e m_a m_b) + sqrt (m_b * m_b + pCM_sqr e m_a m_b) = e"
proof (cases "e = 0")
  case True
  with assms have "m_a = 0" "m_b = 0" by simp_all
  with True show ?thesis by (simp add: pCM_sqr_def)
next
  case False
  with assms have e: "0 < e" by simp
  have ab: "(m_a + m_b) * (m_a + m_b) \<le> e * e"
    using assms by (intro mult_mono) simp_all
  have "m_b * m_b \<le> (m_a + m_b) * (m_a + m_b)" "m_a * m_a \<le> (m_a + m_b) * (m_a + m_b)"
    using assms by (intro mult_mono; simp)+
  moreover have "0 \<le> m_a * m_a" "0 \<le> m_b * m_b"
    by simp_all
  ultimately have pa: "0 \<le> e * e + m_a * m_a - m_b * m_b"
    and pb: "0 \<le> e * e - m_a * m_a + m_b * m_b"
    using ab by linarith+
  have sa: "sqrt (m_a * m_a + pCM_sqr e m_a m_b) = (e * e + m_a * m_a - m_b * m_b) / (2 * e)"
    using pa e by (simp add: energy_a [OF False] real_sqrt_abs divide_nonneg_pos)
  have sb: "sqrt (m_b * m_b + pCM_sqr e m_a m_b) = (e * e - m_a * m_a + m_b * m_b) / (2 * e)"
    using pb e by (simp add: energy_b [OF False] real_sqrt_abs divide_nonneg_pos)
  have "(e * e + m_a * m_a - m_b * m_b) / (2 * e) + (e * e - m_a * m_a + m_b * m_b) / (2 * e) = e"
    using False by (simp add: field_simps)
  then show ?thesis
    by (simp only: sa sb)
qed

lemma pCM_square:
  assumes "0 \<le> m_a" "0 \<le> m_b" "m_a + m_b \<le> e"
  shows "pCM e m_a m_b * pCM e m_a m_b = pCM_sqr e m_a m_b" "0 \<le> pCM e m_a m_b"
  using pCM_sqr_nonneg [OF assms] by (simp_all add: pCM_def)

text \<open>
  Claim C4. For two outgoing particles, masses \<open>m_a, m_b \<ge> 0\<close> and an energy
  \<open>E = kinetic_energy_cms\<close> of at least \<open>m_a + m_b\<close>, \<open>sample_angles\<close> returns for all
  draws in \<open>[0, 1)\<close>, having consumed two of them. There is one direction \<open>n\<close> of length
  one such that the first outgoing particle has the three-momentum \<open>n * pcm\<close> and the
  second \<open>-n * pcm\<close>, with \<open>pcm = pCM E m_a m_b\<close>; their four-momenta have the invariant
  masses \<open>m_a\<close> and \<open>m_b\<close>; the three-momenta add up to zero and the energies to \<open>E\<close>.
\<close>

theorem sample_angles_back_to_back:
  assumes "length (outgoing_particles a) = 2" "0 \<le> m_a" "0 \<le> m_b"
    "m_a + m_b \<le> kinetic_energy_cms sqrt_s a" "unit_draws u"
  shows "\<exists>a' lg n.
           sample_angles sqrt_s u k a (m_a, m_b) = Inr (a', k + 2, lg) \<and>
           sqr3 n = 1 \<and>
           length (outgoing_particles a') = 2 \<and>
           threevec (momentum (outgoing_particles a' ! 0)) =
             scale3 n (pCM (kinetic_energy_cms sqrt_s a) m_a m_b) \<and>
           threevec (momentum (outgoing_particles a' ! 1)) =
             scale3 (neg3 n) (pCM (kinetic_energy_cms sqrt_s a) m_a m_b) \<and>
           0 \<le> x0 (momentum (outgoing_particles a' ! 0)) \<and>
           0 \<le> x0 (momentum (outgoing_particles a' ! 1)) \<and>
           (x0 (momentum (outgoing_particles a' ! 0)))\<^sup>2 -
             sqr3 (threevec (momentum (outgoing_particles a' ! 0))) = m_a\<^sup>2 \<and>
           (x0 (momentum (outgoing_particles a' ! 1)))\<^sup>2 -
             sqr3 (threevec (momentum (outgoing_particles a' ! 1))) = m_b\<^sup>2 \<and>
           add3 (threevec (momentum (outgoing_particles a' ! 0)))
                (threevec (momentum (outgoing_particles a' ! 1))) = zero3 \<and>
           x0 (momentum (outgoing_particles a' ! 0)) +
             x0 (momentum (outgoing_particles a' ! 1)) = kinetic_energy_cms sqrt_s a"
proof -
  define e where "e = kinetic_energy_cms sqrt_s a"
  define pcm where "pcm = pCM e m_a m_b"
  define ang where "ang = fst (distribute_isotropically u k Angles_init)"
  define n where "n = Angles_threevec ang"
  define lg where "lg = (if \<not> pcm > 0
       then [Log_warn_radial_momentum (pdgcode (ptype (outgoing_particles a ! 0))) pcm,
             Log_warn_Ektot e m_a m_b]
       else [])"
  define q_a where "q_a = set_4momentum (outgoing_particles a ! 0) m_a (scale3 n pcm)"
  define q_b where "q_b = set_4momentum (outgoing_particles a ! 1) m_b (scale3 (neg3 n) pcm)"
  define a' where
    "a' = a\<lparr>outgoing_particles := (outgoing_particles a)[0 := q_a, 1 := q_b]\<rparr>"
  have "costheta_in_range ang"
    unfolding ang_def using assms(5) by (rule distribute_isotropically_in_range)
  then have n1: "sqr3 n = 1"
    unfolding n_def by (rule sqr3_Angles_threevec)
  have drawn: "distribute_isotropically u k Angles_init = (ang, k + 2)"
    by (simp add: ang_def distribute_isotropically_def)
  have res: "sample_angles sqrt_s u k a (m_a, m_b) = Inr (a', k + 2, lg)"
    using assms(1)
    by (simp add: sample_angles_def Let_def drawn e_def [symmetric] pcm_def [symmetric]
          n_def [symmetric] lg_def q_a_def q_b_def a'_def)
  have o0: "outgoing_particles a' ! 0 = q_a" and o1: "outgoing_particles a' ! 1 = q_b"
    and len: "length (outgoing_particles a') = 2"
    using assms(1) by (simp_all add: a'_def)
  have le: "m_a + m_b \<le> e"
    using assms(4) by (simp add: e_def)
  have pp: "pcm * pcm = pCM_sqr e m_a m_b"
    unfolding pcm_def using assms(2,3) le by (rule pCM_square)
  have ma: "momentum q_a = FourVector (sqrt (m_a * m_a + pCM_sqr e m_a m_b)) (scale3 n pcm)"
    by (simp add: q_a_def set_4momentum_def sqr3_scale3 n1 pp)
  have mb: "momentum q_b = FourVector (sqrt (m_b * m_b + pCM_sqr e m_a m_b)) (scale3 (neg3 n) pcm)"
    by (simp add: q_b_def set_4momentum_def sqr3_scale3 sqr3_neg3 n1 pp)
  have nn: "0 \<le> pCM_sqr e m_a m_b"
    using assms(2,3) le by (rule pCM_sqr_nonneg)
  have sum: "x0 (momentum q_a) + x0 (momentum q_b) = e"
    using two_body_energies [OF assms(2,3) le] by (simp add: ma mb)
  have inv_a: "(x0 (momentum q_a))\<^sup>2 - sqr3 (threevec (momentum q_a)) = m_a\<^sup>2"
    using nn by (simp add: ma sqr3_scale3 n1 pp power2_eq_square)
  have inv_b: "(x0 (momentum q_b))\<^sup>2 - sqr3 (threevec (momentum q_b)) = m_b\<^sup>2"
    using nn by (simp add: mb sqr3_scale3 sqr3_neg3 n1 pp power2_eq_square)
  have pos: "0 \<le> x0 (momentum q_a)" "0 \<le> x0 (momentum q_b)"
    using nn by (simp_all add: ma mb)
  have opp: "add3 (threevec (momentum q_a)) (threevec (momentum q_b)) = zero3"
    by (simp add: ma mb add3_scale3_neg3)
  have "sample_angles sqrt_s u k a (m_a, m_b) = Inr (a', k + 2, lg) \<and>
        sqr3 n = 1 \<and> length (outgoing_particles a') = 2 \<and>
        threevec (momentum q_a) = scale3 n pcm \<and>
        threevec (momentum q_b) = scale3 (neg3 n) pcm \<and>
        0 \<le> x0 (momentum q_a) \<and> 0 \<le> x0 (momentum q_b) \<and>
        (x0 (momentum q_a))\<^sup>2 - sqr3 (threevec (momentum q_a)) = m_a\<^sup>2 \<and>
        (x0 (momentum q_b))\<^sup>2 - sqr3 (threevec (momentum q_b)) = m_b\<^sup>2 \<and>
        add3 (threevec (momentum q_a)) (threevec (momentum q_b)) = zero3 \<and>
        x0 (momentum q_a) + x0 (momentum q_b) = e"
    using res n1 len pos inv_a inv_b opp sum by (simp add: ma mb)
  then show ?thesis
    unfolding e_def [symmetric] pcm_def [symmetric] o0 [symmetric] o1 [symmetric]
    by (intro exI [of _ a'] exI [of _ lg] exI [of _ n])
qed

theorem sample_angles_back_to_back_witness:
  "\<exists>a' lg n.
     sample_angles (\<lambda>a. 1) (\<lambda>i. 1 / 4) 0
       (action [at_rest 1 proton, at_rest 2 proton] [at_rest 3 pi_plus, at_rest 4 pi_minus]
          (Other_process 3)) (138 / 1000, 138 / 1000) = Inr (a', 2, lg) \<and>
     sqr3 n = 1 \<and>
     threevec (momentum (outgoing_particles a' ! 0)) =
       scale3 n (pCM 1 (138 / 1000) (138 / 1000)) \<and>
     add3 (threevec (momentum (outgoing_particles a' ! 0)))
          (threevec (momentum (outgoing_particles a' ! 1))) = zero3 \<and>
     x0 (momentum (outgoing_particles a' ! 0)) + x0 (momentum (outgoing_particles a' ! 1)) = 1"
proof -
  let ?a = "action [at_rest 1 proton, at_rest 2 proton] [at_rest 3 pi_plus, at_rest 4 pi_minus]
              (Other_process 3)"
  have e: "kinetic_energy_cms (\<lambda>a. 1) ?a = 1"
    by (simp add: kinetic_energy_cms_no_potential action_def)
  have h: "length (outgoing_particles ?a) = 2" "(0::real) \<le> 138 / 1000"
    "138 / 1000 + 138 / 1000 \<le> kinetic_energy_cms (\<lambda>a. 1) ?a" "unit_draws (\<lambda>i. 1 / 4)"
    by (simp_all add: e unit_draws_def) (simp add: action_def)
  from sample_angles_back_to_back [OF h(1) h(2) h(2) h(3) h(4), of 0]
  obtain a' lg n where
    "sample_angles (\<lambda>a. 1) (\<lambda>i. 1 / 4) 0 ?a (138 / 1000, 138 / 1000) = Inr (a', 0 + 2, lg)"
    "sqr3 n = 1"
    "threevec (momentum (outgoing_particles a' ! 0)) =
       scale3 n (pCM (kinetic_energy_cms (\<lambda>a. 1) ?a) (138 / 1000) (138 / 1000))"
    "add3 (threevec (momentum (outgoing_particles a' ! 0)))
          (threevec (momentum (outgoing_particles a' ! 1))) = zero3"
    "x0 (momentum (outgoing_particles a' ! 0)) + x0 (momentum (outgoing_particles a' ! 1)) =
       kinetic_energy_cms (\<lambda>a. 1) ?a"
    by blast
  then show ?thesis
    unfolding e by (intro exI [of _ a'] exI [of _ lg] exI [of _ n]) simp
qed

section \<open>Committing an action\<close>

text \<open>What \<open>Particles_update\<close> does to the identities of the collection.\<close>

lemma ids_update_particle: "ids (update_particle old new ps) = ids ps"
  by (simp add: ids_def update_particle_def comp_def cong: map_cong)

lemma id_max_update_particle: "id_max (update_particle old new ps) = id_max ps"
  by (simp add: update_particle_def)

lemma update_in_place_keeps:
  "ids (update_in_place zs ps) = ids ps \<and> id_max (update_in_place zs ps) = id_max ps"
  by (induction zs ps rule: update_in_place.induct)
     (simp_all add: ids_update_particle id_max_update_particle)

lemma insert_fresh_ids:
  "ids (insert_fresh ns ps) = ids ps @ map (\<lambda>n. id_max ps + 1 + int n) [0..<length ns] \<and>
   id_max (insert_fresh ns ps) = id_max ps + int (length ns)"
proof (induction ns ps rule: insert_fresh.induct)
  case (1 ps)
  then show ?case by simp
next
  case (2 n ns ps)
  have "map (\<lambda>n. id_max ps + 1 + int n) [0..<Suc (length ns)] =
          (id_max ps + 1) # map (\<lambda>n. id_max ps + 1 + 1 + int n) [0..<length ns]"
    by (simp add: upt_conv_Cons map_Suc_upt [symmetric] del: upt_Suc)
  with 2 show ?case
    by (simp add: ids_def)
qed

lemma ids_remove_identities:
  "ids (remove_identities old ps) = filter (\<lambda>j. j \<notin> particle_id ` set old) (ids ps) \<and>
   id_max (remove_identities old ps) = id_max ps"
  by (simp add: ids_def remove_identities_def filter_map comp_def)

lemma Particles_update_replace:
  "ids (Particles_update ps old new True) =
     filter (\<lambda>j. j \<notin> particle_id ` set old) (ids ps) @
     map (\<lambda>n. id_max ps + 1 + int n) [0..<length new]"
  by (simp add: Particles_update_def insert_fresh_ids ids_remove_identities)

lemma Particles_update_in_place:
  "ids (Particles_update ps old new False) = ids ps \<and>
   id_max (Particles_update ps old new False) = id_max ps"
  by (simp add: Particles_update_def update_in_place_keeps)

lemma valid_id_le:
  "wf_Particles ps \<Longrightarrow> Particles_is_valid ps p \<Longrightarrow> particle_id p \<le> id_max ps"
  by (auto simp: wf_Particles_def Particles_is_valid_def ids_def list_all_iff)

lemma replace_removes_incoming:
  assumes "wf_Particles ps" "\<forall>p\<in>set old. Particles_is_valid ps p"
  shows "\<forall>p\<in>set old. particle_id p \<notin> set (ids (Particles_update ps old new True))"
proof
  fix p assume p: "p \<in> set old"
  with assms have "particle_id p \<le> id_max ps"
    by (simp add: valid_id_le)
  with p show "particle_id p \<notin> set (ids (Particles_update ps old new True))"
    by (auto simp: Particles_update_replace)
qed

lemma replace_inserts_fresh:
  assumes "wf_Particles ps"
  shows "\<forall>n<length new. id_max ps + 1 + int n \<notin> set (ids ps)"
  using assms by (auto simp: wf_Particles_def list_all_iff)

text \<open>
  Claim C7. \<open>perform\<close> (with a process id other than 0) hands the collection the flag
  "replace" exactly when the process type is neither \<open>Elastic\<close> nor \<open>Wall\<close>. For
  \<open>Elastic\<close> and \<open>Wall\<close> the identities in the collection, in their order, and the
  largest identity are as before the call. For every other type the identities of the
  incoming particles are filtered out and one fresh identity per outgoing particle is
  appended; in a well-formed collection that holds the incoming particles, no incoming
  identity is left and the appended ones were not in use. The outgoing particles of
  the action carry the new history (collision count plus one, the process id and type,
  the time of execution, the incoming identities) exactly when the type is not \<open>Wall\<close>;
  for \<open>Wall\<close> they are unchanged.
\<close>

theorem perform_commits:
  assumes "i \<noteq> 0"
  shows "particles_after (perform c a particles i) =
           Particles_update particles (incoming_particles a)
             (outgoing_particles (action_after (perform c a particles i)))
             (process_type a \<noteq> Elastic \<and> process_type a \<noteq> Wall) \<and>
         (process_type a = Elastic \<or> process_type a = Wall \<longrightarrow>
            ids (particles_after (perform c a particles i)) = ids particles \<and>
            id_max (particles_after (perform c a particles i)) = id_max particles) \<and>
         (process_type a \<noteq> Elastic \<and> process_type a \<noteq> Wall \<longrightarrow>
            ids (particles_after (perform c a particles i)) =
              filter (\<lambda>j. j \<notin> particle_id ` set (incoming_particles a)) (ids particles) @
              map (\<lambda>n. id_max particles + 1 + int n) [0..<length (outgoing_particles a)] \<and>
            (wf_Particles particles \<and>
             (\<forall>p\<in>set (incoming_particles a). Particles_is_valid particles p) \<longrightarrow>
               (\<forall>p\<in>set (incoming_particles a).
                  particle_id p \<notin> set (ids (particles_after (perform c a particles i)))) \<and>
               (\<forall>n<length (outgoing_particles a).
                  id_max particles + 1 + int n \<notin> set (ids particles)))) \<and>
         (process_type a \<noteq> Wall \<longrightarrow>
            outgoing_particles (action_after (perform c a particles i)) =
              map (\<lambda>p. set_history p (collisions_per_particle (get_history p) + 1) i
                         (process_type a) (time_of_execution a) (incoming_particles a))
                  (outgoing_particles a)) \<and>
         (process_type a = Wall \<longrightarrow>
            outgoing_particles (action_after (perform c a particles i)) = outgoing_particles a)"
proof -
  define a1 where
    "a1 = a\<lparr>outgoing_particles := map (stamp_history a i) (outgoing_particles a)\<rparr>"
  define flag where "flag \<longleftrightarrow> process_type a \<noteq> Elastic \<and> process_type a \<noteq> Wall"
  have act: "action_after (perform c a particles i) = a1"
    using assms by (simp add: perform_def Let_def a1_def split: prod.splits)
  have par: "particles_after (perform c a particles i) =
               Particles_update particles (incoming_particles a) (outgoing_particles a1) flag"
    using assms by (simp add: perform_def Let_def a1_def flag_def split: prod.splits)
  have len: "length (outgoing_particles a1) = length (outgoing_particles a)"
    by (simp add: a1_def)
  have h1: "process_type a \<noteq> Wall \<Longrightarrow> outgoing_particles a1 =
              map (\<lambda>p. set_history p (collisions_per_particle (get_history p) + 1) i
                         (process_type a) (time_of_execution a) (incoming_particles a))
                  (outgoing_particles a)"
    by (simp add: a1_def stamp_history_def)
  have h2: "process_type a = Wall \<Longrightarrow> outgoing_particles a1 = outgoing_particles a"
    by (simp add: a1_def stamp_history_def map_idI)
  have inplace: "\<not> flag \<Longrightarrow>
      ids (particles_after (perform c a particles i)) = ids particles \<and>
      id_max (particles_after (perform c a particles i)) = id_max particles"
    by (simp add: par Particles_update_in_place)
  have repl: "flag \<Longrightarrow> ids (particles_after (perform c a particles i)) =
              filter (\<lambda>j. j \<notin> particle_id ` set (incoming_particles a)) (ids particles) @
              map (\<lambda>n. id_max particles + 1 + int n) [0..<length (outgoing_particles a)]"
    by (simp add: par Particles_update_replace len)
  have gone: "flag \<Longrightarrow> wf_Particles particles \<Longrightarrow>
      \<forall>p\<in>set (incoming_particles a). Particles_is_valid particles p \<Longrightarrow>
      \<forall>p\<in>set (incoming_particles a).
         particle_id p \<notin> set (ids (particles_after (perform c a particles i)))"
    using replace_removes_incoming [of particles "incoming_particles a" "outgoing_particles a1"]
    by (simp add: par)
  show ?thesis
    unfolding act
    using par h1 h2 inplace repl gone replace_inserts_fresh [of particles "outgoing_particles a"]
    unfolding flag_def by blast
qed


theorem perform_commits_witness:
  "ids (particles_after (perform count_baryons
          (action [at_rest 1 proton, at_rest 2 proton] [at_rest 1 proton, at_rest 2 proton] Elastic)
          \<lparr>data = [at_rest 1 proton, at_rest 2 proton], id_max = 2\<rparr> 5)) = [1, 2] \<and>
   ids (particles_after (perform count_baryons
          (action [at_rest 1 pi_plus, at_rest 2 pi_minus] [at_rest 0 omega] (Other_process 2))
          \<lparr>data = [at_rest 1 pi_plus, at_rest 2 pi_minus], id_max = 2\<rparr> 5)) = [3] \<and>
   map (\<lambda>p. collisions_per_particle (get_history p))
     (outgoing_particles (action_after (perform count_baryons
          (action [at_rest 1 pi_plus, at_rest 2 pi_minus] [at_rest 0 omega] (Other_process 2))
          \<lparr>data = [at_rest 1 pi_plus, at_rest 2 pi_minus], id_max = 2\<rparr> 5))) = [1] \<and>
   outgoing_particles (action_after (perform count_baryons
          (action [at_rest 1 proton] [at_rest 1 proton] Wall)
          \<lparr>data = [at_rest 1 proton], id_max = 1\<rparr> 5)) = [at_rest 1 proton]"
proof -
  let ?el = "action [at_rest 1 proton, at_rest 2 proton] [at_rest 1 proton, at_rest 2 proton]
               Elastic"
  let ?pp = "\<lparr>data = [at_rest 1 proton, at_rest 2 proton], id_max = 2\<rparr>"
  let ?fu = "action [at_rest 1 pi_plus, at_rest 2 pi_minus] [at_rest 0 omega] (Other_process 2)"
  let ?pi = "\<lparr>data = [at_rest 1 pi_plus, at_rest 2 pi_minus], id_max = 2\<rparr>"
  let ?wa = "action [at_rest 1 proton] [at_rest 1 proton] Wall"
  let ?p1 = "\<lparr>data = [at_rest 1 proton], id_max = 1\<rparr>"
  have nz: "(5 :: 32 word) \<noteq> 0"
    by simp
  have 1: "ids (particles_after (perform count_baryons ?el ?pp 5)) = [1, 2]"
    using perform_commits [OF nz, of count_baryons ?el ?pp, THEN conjunct2, THEN conjunct1]
    by (simp add: action_def ids_def at_rest_def particle_def)
  have 2: "ids (particles_after (perform count_baryons ?fu ?pi 5)) = [3]"
    using perform_commits [OF nz, of count_baryons ?fu ?pi, THEN conjunct2, THEN conjunct2,
            THEN conjunct1]
    by (simp add: action_def ids_def at_rest_def particle_def)
  have 3: "map (\<lambda>p. collisions_per_particle (get_history p))
             (outgoing_particles (action_after (perform count_baryons ?fu ?pi 5))) = [1]"
    using perform_commits [OF nz, of count_baryons ?fu ?pi, THEN conjunct2, THEN conjunct2,
            THEN conjunct2, THEN conjunct1]
    by (simp add: action_def at_rest_def particle_def set_history_def no_history_def)
  have 4: "outgoing_particles (action_after (perform count_baryons ?wa ?p1 5)) =
             [at_rest 1 proton]"
    using perform_commits [OF nz, of count_baryons ?wa ?p1, THEN conjunct2, THEN conjunct2,
            THEN conjunct2, THEN conjunct2]
    by (simp add: action_def)
  from 1 2 3 4 show ?thesis
    by simp
qed

section \<open>Fusion of three pions\<close>

text \<open>
  The sum of two momenta of massive particles is the momentum of a massive system
  (by the inequality of Cauchy and Schwarz), and the boost of a momentum at rest with
  the opposite of the velocity of \<open>P\<close> gives \<open>P\<close> when the mass at rest is \<open>|P|\<close>.
\<close>

lemma add4_zero4: "add4 zero4 p = p"
  by (cases p, cases "threevec p") (simp add: add4_def zero4_def zero3_def add3_def)

lemma lagrange3:
  fixes a1 a2 a3 b1 b2 b3 :: real
  shows "(a1 * b1 + a2 * b2 + a3 * b3)\<^sup>2 \<le> (a1\<^sup>2 + a2\<^sup>2 + a3\<^sup>2) * (b1\<^sup>2 + b2\<^sup>2 + b3\<^sup>2)"
proof -
  have "(a1\<^sup>2 + a2\<^sup>2 + a3\<^sup>2) * (b1\<^sup>2 + b2\<^sup>2 + b3\<^sup>2) - (a1 * b1 + a2 * b2 + a3 * b3)\<^sup>2 =
        (a1 * b2 - a2 * b1)\<^sup>2 + (a1 * b3 - a3 * b1)\<^sup>2 + (a2 * b3 - a3 * b2)\<^sup>2"
    by (simp add: power2_eq_square algebra_simps)
  moreover have "0 \<le> (a1 * b2 - a2 * b1)\<^sup>2 + (a1 * b3 - a3 * b1)\<^sup>2 + (a2 * b3 - a3 * b2)\<^sup>2"
    by simp
  ultimately show ?thesis
    by linarith
qed

lemma dot3_less:
  assumes "0 < s" "0 < t" "sqr3 v < s * s" "sqr3 w < t * t"
  shows "dot3 v w < s * t"
proof -
  have cs: "(dot3 v w)\<^sup>2 \<le> sqr3 v * sqr3 w"
    using lagrange3 [of "x1 v" "x1 w" "x2 v" "x2 w" "x3 v" "x3 w"]
    by (simp add: dot3_def sqr3_def power2_eq_square)
  have nv: "0 \<le> sqr3 v" and nw: "0 \<le> sqr3 w"
    by (simp_all add: sqr3_def)
  have "sqr3 v * sqr3 w < (s * s) * (t * t)"
    using assms nv nw by (intro mult_strict_mono') simp_all
  with cs have "(dot3 v w)\<^sup>2 < (s * t)\<^sup>2"
    by (simp add: power2_eq_square algebra_simps)
  
  moreover have "0 \<le> s * t"
    using assms by simp
  ultimately show ?thesis
    by (rule power2_less_imp_less)
qed

lemma massive_add4: "massive p \<Longrightarrow> massive q \<Longrightarrow> massive (add4 p q)"
proof -
  assume p: "massive p" and q: "massive q"
  have "sqr3 (add3 (threevec p) (threevec q)) =
          sqr3 (threevec p) + 2 * dot3 (threevec p) (threevec q) + sqr3 (threevec q)"
    by (simp add: sqr3_def add3_def dot3_def algebra_simps)
  moreover have "dot3 (threevec p) (threevec q) < x0 p * x0 q"
    using p q by (intro dot3_less) (simp_all add: massive_def)
  ultimately have "sqr3 (add3 (threevec p) (threevec q)) < (x0 p + x0 q) * (x0 p + x0 q)"
    using p q by (simp add: massive_def algebra_simps)
  with p q show ?thesis
    by (simp add: massive_def add4_def)
qed

lemma boost_from_rest:
  assumes "massive P"
  shows "lorentz_boost (FourVector (sqrt (abs4 P * abs4 P + sqr3 (ThreeVector 0 0 0)))
                          (ThreeVector 0 0 0))
           (neg3 (velocity P)) = P"
proof -
  obtain e a b c where P: "P = FourVector e (ThreeVector a b c)"
    by (metis FourVector.exhaust ThreeVector.exhaust)
  define m where "m = abs4 P"
  have e: "0 < e" and lt: "a * a + b * b + c * c < e * e"
    using assms by (simp_all add: massive_def P sqr3_def)
  have msq: "m * m = e * e - (a * a + b * b + c * c)"
    using lt by (simp add: m_def abs4_def sqr4_def P sqr3_def)
  have m: "0 < m"
    using lt by (simp add: m_def abs4_def sqr4_def P sqr3_def)
  have rest: "sqrt (m * m + sqr3 (ThreeVector 0 0 0)) = m"
    using m by (simp add: sqr3_def)
  define v where "v = neg3 (velocity P)"
  have vsq: "1 - sqr3 v = (m / e)\<^sup>2"
    using e msq by (simp add: v_def P velocity_def neg3_def sqr3_def power2_eq_square field_simps)
  have sq: "sqrt (1 - sqr3 v) = m / e"
    using e m by (simp add: vsq real_sqrt_abs)
  have nz: "e * m + m * m \<noteq> 0"
    using e m by (simp add: add_pos_pos less_imp_neq [symmetric])
  have gm: "e / m * m = e"
    using m by simp
  have cp: "e / m / (e / m + 1) * (e + m) = e"
    using e m by (simp add: field_simps)
  have "lorentz_boost (FourVector m (ThreeVector 0 0 0)) v = FourVector e (neg3 (scale3 v e))"
    using e m nz
    by (simp add: lorentz_boost_def Let_def sq dot3_def add3_def neg3_def scale3_def)
       (simp add: field_simps)
  moreover have "neg3 (scale3 v e) = ThreeVector a b c"
    using e by (simp add: v_def P velocity_def neg3_def scale3_def)
  ultimately show ?thesis
    unfolding m_def [symmetric] rest v_def [symmetric] by (simp add: P)
qed


lemma massive_total_momentum:
  assumes "incoming_particles a = [p1, p2, p3]"
    "massive (momentum p1)" "massive (momentum p2)" "massive (momentum p3)"
  shows "massive (total_momentum a)"
  using assms by (simp add: total_momentum_def add4_zero4 massive_add4)

text \<open>
  Claim C3. Let the channel chosen have the type \<open>MultiParticleThreePionsToOmega\<close>, and
  let the three incoming particles have momenta of massive particles (as three pions
  have), with the sum \<open>P\<close>. If the channel has one outgoing species, \<open>annihilation\<close> gives
  the new particle the momentum \<open>(|P|, 0, 0, 0)\<close> of a particle of mass \<open>|P|\<close> at rest, and
  \<open>generate_final_state\<close> returns with exactly one outgoing particle, whose four-momentum
  is \<open>P\<close> (so its invariant mass is \<open>|P|\<close>) and whose position is the mean of the three
  incoming positions. With any other number of outgoing species it throws
  \<^verbatim>\<open>InvalidScatterActionMulti\<close>.
\<close>

theorem three_pions_to_omega:
  assumes "choose_channel (reaction_channels a) (total_probability a) u k = Inr (proc, k')"
    and "get_type proc = MultiParticleThreePionsToOmega"
    and "incoming_particles (base a) = [p1, p2, p3]"
    and "massive (momentum p1)" "massive (momentum p2)" "massive (momentum p3)"
  shows "(length (particle_types proc) = 1 \<longrightarrow>
            (\<exists>a2 q0. annihilation (take_channel a proc) = Inr a2 \<and>
               outgoing_particles (base a2) = [q0] \<and>
               momentum q0 = FourVector (abs4 (total_momentum (base a))) (ThreeVector 0 0 0)) \<and>
            (\<exists>a' q. generate_final_state choose_channel u k a = Inr (a', k') \<and>
               outgoing_particles (base a') = [q] \<and>
               momentum q = total_momentum (base a) \<and>
               abs4 (momentum q) = abs4 (total_momentum (base a)) \<and>
               position q =
                 div4 (add4 (add4 (position p1) (position p2)) (position p3)) 3)) \<and>
         (length (particle_types proc) \<noteq> 1 \<longrightarrow>
            generate_final_state choose_channel u k a =
              Inl (Threw_InvalidScatterActionMulti_count (length (particle_types proc))))"
proof (intro conjI impI)
  define a1 where "a1 = take_channel a proc"
  have inc1: "incoming_particles (base a1) = [p1, p2, p3]"
    and ty1: "process_type (base a1) = MultiParticleThreePionsToOmega"
    and out1: "outgoing_particles (base a1) = map new_particle (particle_types proc)"
    using assms(2,3) by (simp_all add: a1_def take_channel_def particle_list_def)
  have tm1: "total_momentum (base a1) = total_momentum (base a)"
    using assms(3) inc1 by (simp add: total_momentum_def)
  have gen: "generate_final_state choose_channel u k a =
               (case annihilation a1 of Inl e \<Rightarrow> Inl e | Inr a2 \<Rightarrow> Inr (boost_and_place a2, k'))"
    using assms(1) ty1 by (simp add: generate_final_state_def switch_process_type_def a1_def)
  {
    assume "length (particle_types proc) \<noteq> 1"
    then show "generate_final_state choose_channel u k a =
                 Inl (Threw_InvalidScatterActionMulti_count (length (particle_types proc)))"
      by (simp add: gen annihilation_def out1)
  }
  assume one: "length (particle_types proc) = 1"
  then obtain t where t: "particle_types proc = [t]"
    by (cases "particle_types proc") simp_all
  define P where "P = total_momentum (base a)"
  define q0 where "q0 = set_4momentum (new_particle t) (abs4 P) (ThreeVector 0 0 0)"
  define a2 where "a2 = a1\<lparr>base := (base a1)\<lparr>outgoing_particles := [q0]\<rparr>\<rparr>"
  have ann: "annihilation a1 = Inr a2"
    by (simp add: annihilation_def out1 t a2_def q0_def total_momentum_of_outgoing_particles_def
          tm1 P_def)
  have mP: "massive P"
    unfolding P_def using assms(3-6) by (rule massive_total_momentum)
  then have abs_pos: "0 < abs4 P"
    by (simp add: massive_def abs4_def sqr4_def)
  have mq0: "momentum q0 = FourVector (abs4 P) (ThreeVector 0 0 0)"
    using abs_pos by (simp add: q0_def set_4momentum_def sqr3_def)
  show "\<exists>a2 q0. annihilation (take_channel a proc) = Inr a2 \<and>
          outgoing_particles (base a2) = [q0] \<and>
          momentum q0 = FourVector (abs4 (total_momentum (base a))) (ThreeVector 0 0 0)"
    using ann mq0 unfolding a1_def P_def
    by (intro exI [of _ a2] exI [of _ q0]) (simp add: a2_def)
  define q where
    "q = set_4position (boost_momentum q0 (neg3 (velocity P))) (get_interaction_point (base a2))"
  have inc2: "incoming_particles (base a2) = [p1, p2, p3]"
    by (simp add: a2_def inc1)
  have tm2: "total_momentum_of_outgoing_particles (base a2) = P"
    using inc2 assms(3) by (simp add: total_momentum_of_outgoing_particles_def
          total_momentum_def P_def)
  have out': "outgoing_particles (base (boost_and_place a2)) = [q]"
    by (simp add: boost_and_place_def Let_def tm2 q_def) (simp add: a2_def)
  have "lorentz_boost (momentum q0) (neg3 (velocity P)) = P"
    using boost_from_rest [OF mP]
    by (simp add: q0_def set_4momentum_def)
  then have mq: "momentum q = P"
    by (simp add: q_def set_4position_def boost_momentum_def)
  have pq: "position q = div4 (add4 (add4 (position p1) (position p2)) (position p3)) 3"
    by (simp add: q_def set_4position_def get_interaction_point_def inc2 add4_zero4)
  show "\<exists>a' q. generate_final_state choose_channel u k a = Inr (a', k') \<and>
          outgoing_particles (base a') = [q] \<and>
          momentum q = total_momentum (base a) \<and>
          abs4 (momentum q) = abs4 (total_momentum (base a)) \<and>
          position q = div4 (add4 (add4 (position p1) (position p2)) (position p3)) 3"
    using out' mq pq unfolding P_def
    by (intro exI [of _ "boost_and_place a2"] exI [of _ q]) (simp add: gen ann)
qed


theorem three_pions_to_omega_witness:
  "(\<exists>a' q. generate_final_state (\<lambda>chs tot u k. Inr (chs ! 0, Suc k)) (\<lambda>i. 1 / 2) 0
              (fusion [omega]) = Inr (a', 1) \<and>
      outgoing_particles (base a') = [q] \<and>
      momentum q = FourVector (483 / 1000) (ThreeVector (1035 / 10000) (- 1035 / 10000) 0) \<and>
      position q = FourVector 0 (ThreeVector 1 1 0)) \<and>
   generate_final_state (\<lambda>chs tot u k. Inr (chs ! 0, Suc k)) (\<lambda>i. 1 / 2) 0
     (fusion [pi_zero, pi_zero]) = Inl (Threw_InvalidScatterActionMulti_count 2)"
proof -
  let ?ch = "\<lambda>chs tot u k. Inr (chs ! 0, Suc k)"
  let ?p1 = "particle 1 pi_plus (FourVector (1725 / 10000) (ThreeVector (1035 / 10000) 0 0))
               (FourVector 0 (ThreeVector 0 0 0))"
  let ?p2 = "particle 2 pi_minus (FourVector (1725 / 10000) (ThreeVector 0 (- 1035 / 10000) 0))
               (FourVector 0 (ThreeVector 3 0 0))"
  let ?p3 = "particle 3 pi_zero (FourVector (138 / 1000) (ThreeVector 0 0 0))
               (FourVector 0 (ThreeVector 0 3 0))"
  have m: "massive (momentum ?p1)" "massive (momentum ?p2)" "massive (momentum ?p3)"
    by (simp_all add: massive_def particle_def sqr3_def)
  have P: "total_momentum (base (fusion ts)) =
             FourVector (483 / 1000) (ThreeVector (1035 / 10000) (- 1035 / 10000) 0)" for ts
    by (simp add: total_momentum_def fusion_def action_def three_pions_def particle_def
          add4_def add3_def zero4_def zero3_def)
  have X: "div4 (add4 (add4 (position ?p1) (position ?p2)) (position ?p3)) 3 =
             FourVector 0 (ThreeVector 1 1 0)"
    by (simp add: particle_def add4_def add3_def div4_def)
  have c: "?ch (reaction_channels (fusion ts)) (total_probability (fusion ts)) (\<lambda>i. 1 / 2) 0 =
             Inr (\<lparr>particle_types = ts, weight = 1,
                     get_type = MultiParticleThreePionsToOmega\<rparr>, 1)" for ts
    by (simp add: fusion_def)
  have i: "incoming_particles (base (fusion ts)) = [?p1, ?p2, ?p3]" for ts
    by (simp add: fusion_def action_def three_pions_def)
  note inst = three_pions_to_omega
    [where choose_channel = ?ch and u = "\<lambda>i. 1 / 2" and k = 0 and k' = 1
       and ?p1.0 = ?p1 and ?p2.0 = ?p2 and ?p3.0 = ?p3, OF _ _ _ m]
  have 1: "\<exists>a' q. generate_final_state ?ch (\<lambda>i. 1 / 2) 0 (fusion [omega]) = Inr (a', 1) \<and>
             outgoing_particles (base a') = [q] \<and>
             momentum q = FourVector (483 / 1000) (ThreeVector (1035 / 10000) (- 1035 / 10000) 0) \<and>
             position q = FourVector 0 (ThreeVector 1 1 0)"
    using inst [where a = "fusion [omega]"
                  and proc = "\<lparr>particle_types = [omega], weight = 1,
                                get_type = MultiParticleThreePionsToOmega\<rparr>",
                OF c _ i, THEN conjunct1]
    unfolding P X by auto
  have 2: "generate_final_state ?ch (\<lambda>i. 1 / 2) 0 (fusion [pi_zero, pi_zero]) =
             Inl (Threw_InvalidScatterActionMulti_count 2)"
    using inst [where a = "fusion [pi_zero, pi_zero]"
                  and proc = "\<lparr>particle_types = [pi_zero, pi_zero], weight = 1,
                                get_type = MultiParticleThreePionsToOmega\<rparr>",
                OF c _ i, THEN conjunct2]
    by simp
  from 1 2 show ?thesis
    by (rule conjI)
qed

end
